theory Spec2Isabelle
  imports Main "HOL-Library.Sublist"
begin

section \<open>The dynr53 update endpoint (lambda/index.py)\<close>

text \<open>
  The service is one HTTP endpoint, \<^verbatim>\<open>GET /nic/update\<close>, that checks HTTP Basic
  credentials against a secret, finds the hosted zone of a hostname, and upserts an A
  record unless a listed record already carries the address.  Everything it decides
  depends on collaborators outside the repository: the secret store and the parameters
  cache in front of it, the DNS provider (Route 53), the IP address parser and the
  JMESPath library.  They appear below as the fields of one record, \<open>world\<close>: what the
  secret store answers and what the parameters cache holds, what the provider holds, which
  of its calls it refuses, how it normalises record names, which texts the address parser
  accepts, and what the JMESPath library does with an expression that the interpolated
  text has altered.  The two pieces of state the process owns are fields as well: the memo
  of \<^verbatim>\<open>get_admin_password\<close> and a log of every remote call, oldest first.
  Every Python function becomes a function from the world to a result and the new world;
  a raised exception is the \<open>Inl\<close> of the result.
\<close>

subsection \<open>Values\<close>

text \<open>
  A parsed address.  The code only ever formats it (\<^verbatim>\<open>str(ip)\<close>, \<^verbatim>\<open>f'{ip}'\<close>), so the
  model keeps its canonical text.
\<close>

datatype IPvAnyAddress = IPvAnyAddress (str: string)

datatype HTTPBasicCredentials = HTTPBasicCredentials (username: string) (password: string)

datatype HostedZone = HostedZone (zone_Name: string) (zone_Id: string)

datatype ResourceRecordSet =
  ResourceRecordSet (rrs_Name: string) (rrs_Type: string) (rrs_TTL: int)
    (rrs_ResourceRecords: "string list")

datatype action = CREATE | DELETE | UPSERT

datatype Change = Change (change_Action: action) (change_ResourceRecordSet: ResourceRecordSet)

text \<open>
  What \<^verbatim>\<open>get_hosted_zone_id_from_fqdn\<close> returns: the first item of the first search result.
  With the filter as written it is a zone's Id, a string; an altered filter can select
  another kind of value, which the provider client refuses as \<^verbatim>\<open>HostedZoneId\<close>.
\<close>

datatype zone_id = ZoneId string | NotAString

datatype json =
    JNull
  | JBool bool
  | JNumber int
  | JString string
  | JArray "json list"
  | JObject "(string \<times> json) list"

text \<open>The remote calls the code makes, with their arguments.\<close>

datatype api_call =
    GetSecret string
  | ListHostedZonesByName string
  | ListHostedZones
  | ListResourceRecordSets string string string
  | ChangeResourceRecordSets string "Change list"

text \<open>
  Exceptions.  \<open>HTTPException status_code detail headers\<close> is FastAPI's; the framework
  answers \<open>RequestValidationError\<close> with status 422; every other exception is not caught
  by the code and ends the request with status 500.
\<close>

datatype exn =
    HTTPException int string "(string \<times> string) list"
  | RequestValidationError
  | GetParameterError
  | JSONDecodeError
  | KeyError string
  | ValueError string
  | IndexError
  | ParamValidationError
  | JMESPathError
  | ClientError api_call

datatype response = PlainTextResponse (body: string)

fun status_code :: "exn + response \<Rightarrow> int" where
  "status_code (Inr (PlainTextResponse _)) = 200"
| "status_code (Inl (HTTPException s _ _)) = s"
| "status_code (Inl RequestValidationError) = 422"
| "status_code (Inl _) = 500"

text \<open>
  What goes over the wire for a raised \<^verbatim>\<open>HTTPException\<close>.  The application sets
  \<^verbatim>\<open>default_response_class=PlainTextResponse\<close>, which covers what a route returns; an
  \<^verbatim>\<open>HTTPException\<close> is rendered by the framework's handler as the JSON document
  \<^verbatim>\<open>{"detail": ...}\<close>, unless the status allows no body.
\<close>

datatype content = PlainText string | JSON json

record http_response =
  status :: int
  response_headers :: "(string \<times> string) list"
  content :: "content option"

definition http_exception_handler :: "int \<Rightarrow> string \<Rightarrow> (string \<times> string) list \<Rightarrow> http_response" where
  "http_exception_handler exc_status_code exc_detail exc_headers =
     (if exc_status_code < 200 \<or> exc_status_code \<in> {204, 205, 304}
      then \<lparr>status = exc_status_code, response_headers = exc_headers, content = None\<rparr>
      else \<lparr>status = exc_status_code, response_headers = exc_headers,
            content = Some (JSON (JObject [(''detail'', JString exc_detail)]))\<rparr>)"

text \<open>
  The secret as \<^verbatim>\<open>json.loads\<close> reads it: not JSON, or a JSON object (its string fields).
  The store answers with it or does not answer (\<open>None\<close>).
\<close>

datatype secret_string =
    NotJSON
  | JSONObject "string \<rightharpoonup> string"

text \<open>
  The fields of the world.  \<open>parameters_cache\<close> is the slot in which
  \<^verbatim>\<open>parameters.get_secret\<close> keeps the text it fetched; an entry that has expired is an empty
  slot, so the passing of time is a change of this field between two calls.
  \<open>jmespath_compile\<close>, \<open>jmespath_zone_id\<close> and \<open>jmespath_truthy\<close> are the answers of the
  JMESPath library for an expression that is not the filter written in the source (see
  \<open>raw_string_literal\<close>): the exception compiling it raises, if any; what
  \<^verbatim>\<open>list(...search(expression))[0][0]\<close> does on the zone listing; and whether the search
  result on a record listing is true in a condition.
\<close>

record world =
  secrets_manager :: "secret_string option"
  parameters_cache :: "secret_string option"
  hosted_zones :: "HostedZone list"
  record_sets :: "string \<Rightarrow> ResourceRecordSet list"
  normalize_name :: "string \<Rightarrow> string"
  rejected :: "api_call \<Rightarrow> bool"
  ip_literal :: "string \<Rightarrow> IPvAnyAddress option"
  jmespath_compile :: "string \<Rightarrow> exn option"
  jmespath_zone_id :: "string \<Rightarrow> HostedZone list \<Rightarrow> exn + zone_id"
  jmespath_truthy :: "string \<Rightarrow> ResourceRecordSet list \<Rightarrow> exn + bool"
  admin_password_cache :: "string option"
  calls :: "api_call list"

text \<open>
  A request as the framework hands it over: the decoded Basic credentials (\<open>None\<close> when
  the Authorization header is missing or unusable), the query parameters, and the headers
  under their lower-case names (the first value of each, as \<^verbatim>\<open>request.headers[...]\<close>
  returns it).
\<close>

record request =
  authorization :: "HTTPBasicCredentials option"
  query_params :: "string \<rightharpoonup> string"
  headers :: "string \<rightharpoonup> string"

subsection \<open>The DNS provider\<close>

text \<open>
  A record set is identified by its name and type.  The provider stores the name in its
  normal form (at least the trailing dot), whatever the request wrote.
\<close>

definition same_record_set :: "ResourceRecordSet \<Rightarrow> ResourceRecordSet \<Rightarrow> bool" where
  "same_record_set a b \<longleftrightarrow> rrs_Name a = rrs_Name b \<and> rrs_Type a = rrs_Type b"

definition normalized :: "(string \<Rightarrow> string) \<Rightarrow> ResourceRecordSet \<Rightarrow> ResourceRecordSet" where
  "normalized norm r =
     ResourceRecordSet (norm (rrs_Name r)) (rrs_Type r) (rrs_TTL r) (rrs_ResourceRecords r)"

text \<open>
  The provider's side of \<^verbatim>\<open>change_resource_record_sets\<close>: UPSERT replaces the whole record
  set of that name and type, or creates it; CREATE adds; DELETE removes.
\<close>

fun apply_change :: "(string \<Rightarrow> string) \<Rightarrow> ResourceRecordSet list \<Rightarrow> Change \<Rightarrow> ResourceRecordSet list" where
  "apply_change norm rs (Change UPSERT r) =
     (if \<exists>x \<in> set rs. same_record_set x (normalized norm r)
      then map (\<lambda>x. if same_record_set x (normalized norm r) then normalized norm r else x) rs
      else rs @ [normalized norm r])"
| "apply_change norm rs (Change CREATE r) = rs @ [normalized norm r]"
| "apply_change norm rs (Change DELETE r) =
     filter (\<lambda>x. \<not> same_record_set x (normalized norm r)) rs"

text \<open>
  One call to the provider: it is logged; a refused call raises \<^verbatim>\<open>ClientError\<close>; an accepted
  change batch is applied to the zone's record sets; the listing calls change nothing.
\<close>

definition route53 :: "api_call \<Rightarrow> world \<Rightarrow> (exn + unit) \<times> world" where
  "route53 c w =
     (let w' = w\<lparr>calls := calls w @ [c]\<rparr> in
      if rejected w c then (Inl (ClientError c), w')
      else
        (case c of
           ChangeResourceRecordSets z changes \<Rightarrow>
             (Inr (), w'\<lparr>record_sets :=
                (record_sets w)(z := foldl (apply_change (normalize_name w)) (record_sets w z) changes)\<rparr>)
         | _ \<Rightarrow> (Inr (), w')))"

fun mutating :: "api_call \<Rightarrow> bool" where
  "mutating (ChangeResourceRecordSets _ _) = True"
| "mutating _ = False"

fun dns_call :: "api_call \<Rightarrow> bool" where
  "dns_call (GetSecret _) = False"
| "dns_call _ = True"

subsection \<open>Library functions\<close>

text \<open>\<^verbatim>\<open>secrets.compare_digest\<close> on the UTF-8 encodings: equality, in constant time.\<close>

definition compare_digest :: "string \<Rightarrow> string \<Rightarrow> bool" where
  "compare_digest a b \<longleftrightarrow> a = b"

text \<open>\<^verbatim>\<open>s.split(sep, 1)\<close>: one part when \<open>sep\<close> does not occur, else the text before and after
  its first occurrence.\<close>

definition split1 :: "char \<Rightarrow> string \<Rightarrow> string list" where
  "split1 sep s =
     (case dropWhile (\<lambda>c. c \<noteq> sep) s of
        [] \<Rightarrow> [s]
      | _ # rest \<Rightarrow> [takeWhile (\<lambda>c. c \<noteq> sep) s, rest])"

text \<open>
  The code builds its JMESPath filters by interpolation:
  \<^verbatim>\<open>f"HostedZones[?Name == '{zone_name}.'][Id]"\<close>.  The interpolated text stands between
  single quotes.  There the JMESPath lexer reads up to the next quote; a backslash takes
  the character after it along, whatever it is.  \<open>consume_until\<close> is that reading of a
  text that is followed by the closing quote: the characters read, or \<open>None\<close> when the
  literal does not end with that closing quote (a quote inside the text ends it early, a
  backslash at the end of the text takes the closing quote along).  The value of the
  literal is what was read with every backslash-quote pair replaced by a quote.
\<close>

fun consume_until :: "string \<Rightarrow> string option" where
  "consume_until [] = Some []"
| "consume_until [c] = (if c = CHR 0x5C \<or> c = CHR 0x27 then None else Some [c])"
| "consume_until (c # d # cs) =
     (if c = CHR 0x5C then map_option (\<lambda>r. c # d # r) (consume_until cs)
      else if c = CHR 0x27 then None
      else map_option ((#) c) (consume_until (d # cs)))"

fun replace_escaped_quote :: "string \<Rightarrow> string" where
  "replace_escaped_quote (c # d # cs) =
     (if c = CHR 0x5C \<and> d = CHR 0x27 then d # replace_escaped_quote cs
      else c # replace_escaped_quote (d # cs))"
| "replace_escaped_quote cs = cs"

text \<open>
  So \<open>raw_string_literal s\<close> is the string the filter compares with when \<open>s\<close> is
  interpolated, and \<open>None\<close> when the interpolation has altered the expression; what the
  library then does is not decided by the source, and is taken from the world.
\<close>

definition raw_string_literal :: "string \<Rightarrow> string option" where
  "raw_string_literal s = map_option replace_escaped_quote (consume_until s)"

text \<open>The two expressions, as the f-strings of the source build them.\<close>

definition hosted_zones_expression :: "string \<Rightarrow> string" where
  "hosted_zones_expression zone_name =
     ''HostedZones[?Name == '' @ [CHR 0x27] @ zone_name @ ''.'' @ [CHR 0x27] @ ''][Id]''"

definition record_sets_expression :: "string \<Rightarrow> IPvAnyAddress \<Rightarrow> string" where
  "record_sets_expression hostname ip =
     ''ResourceRecordSets[?Name == '' @ [CHR 0x27] @ hostname @ ''.'' @ [CHR 0x27]
       @ ''][ResourceRecords][][?Value == '' @ [CHR 0x27] @ str ip @ [CHR 0x27] @ ''][]''"

subsection \<open>The functions of lambda/index.py\<close>

text \<open>
  \<^verbatim>\<open>parameters.get_secret\<close>: the text in the parameters cache if there is one, without
  contacting the store; else the store is asked, and its answer is kept.
\<close>

definition get_secret :: "string \<Rightarrow> world \<Rightarrow> (exn + secret_string) \<times> world" where
  "get_secret name w =
     (case parameters_cache w of
        Some secret \<Rightarrow> (Inr secret, w)
      | None \<Rightarrow>
          (let w' = w\<lparr>calls := calls w @ [GetSecret name]\<rparr> in
           case secrets_manager w of
             None \<Rightarrow> (Inl GetParameterError, w')
           | Some secret \<Rightarrow> (Inr secret, w'\<lparr>parameters_cache := Some secret\<rparr>)))"

text \<open>\<^verbatim>\<open>@functools.lru_cache()\<close>: a returned value is kept, a raised exception is not.\<close>

definition get_admin_password :: "world \<Rightarrow> (exn + string) \<times> world" where
  "get_admin_password w =
     (case admin_password_cache w of
        Some p \<Rightarrow> (Inr p, w)
      | None \<Rightarrow>
          (case get_secret ''dynr53/users/admin'' w of
             (Inl e, w') \<Rightarrow> (Inl e, w')
           | (Inr NotJSON, w') \<Rightarrow> (Inl JSONDecodeError, w')
           | (Inr (JSONObject admin_user_secret), w') \<Rightarrow>
               (case admin_user_secret ''password'' of
                  None \<Rightarrow> (Inl (KeyError ''password''), w')
                | Some p \<Rightarrow> (Inr p, w'\<lparr>admin_password_cache := Some p\<rparr>))))"

text \<open>Both checks are computed before they are combined, so the password is always fetched.\<close>

definition validate_credentials :: "HTTPBasicCredentials \<Rightarrow> world \<Rightarrow> (exn + unit) \<times> world" where
  "validate_credentials credentials w =
     (let username_checks = compare_digest ''admin'' (username credentials) in
      case get_admin_password w of
        (Inl e, w') \<Rightarrow> (Inl e, w')
      | (Inr admin_password, w') \<Rightarrow>
          (let password_checks = compare_digest admin_password (password credentials) in
           if \<not> (username_checks \<and> password_checks)
           then (Inl (HTTPException 401 ''badauth'' [(''WWW-Authenticate'', ''Basic'')]), w')
           else (Inr (), w')))"

definition get_ip_from_headers :: "request \<Rightarrow> world \<Rightarrow> exn + IPvAnyAddress" where
  "get_ip_from_headers request w =
     (case headers request ''x-forwarded-for'' of
        None \<Rightarrow>
          Inl (HTTPException 400 ''IP can not be determined from x-forward-for header'' [])
      | Some v \<Rightarrow>
          (case ip_literal w v of
             None \<Rightarrow> Inl (ValueError v)
           | Some ip \<Rightarrow> Inr ip))"

text \<open>
  \<^verbatim>\<open>list(list_hosted_zones_filtered_iterator)[0][0]\<close>.  With the filter as written, the
  search keeps \<^verbatim>\<open>[Id]\<close> of every zone whose Name is the literal, so the value is the Id of
  the first such zone and \<^verbatim>\<open>IndexError\<close> is raised when there is none.
\<close>

definition search_hosted_zones :: "string \<Rightarrow> world \<Rightarrow> exn + zone_id" where
  "search_hosted_zones zone_name w =
     (case raw_string_literal (zone_name @ ''.'') of
        Some name \<Rightarrow>
          (case filter (\<lambda>z. zone_Name z = name) (hosted_zones w) of
             [] \<Rightarrow> Inl IndexError
           | z # _ \<Rightarrow> Inr (ZoneId (zone_Id z)))
      | None \<Rightarrow> jmespath_zone_id w (hosted_zones_expression zone_name) (hosted_zones w))"

text \<open>
  The result of \<^verbatim>\<open>list_hosted_zones_by_name\<close> is dropped, but the call is made and may
  raise.  The paginator's pages are read as one listing.  The expression is compiled when
  the iteration starts, before the first page is fetched; only \<^verbatim>\<open>IndexError\<close> is caught.
\<close>

definition get_hosted_zone_id_from_fqdn :: "string \<Rightarrow> world \<Rightarrow> (exn + zone_id) \<times> world" where
  "get_hosted_zone_id_from_fqdn hostname w =
     (let zone_name = last (split1 (CHR ''.'') hostname) in
      case route53 (ListHostedZonesByName zone_name) w of
        (Inl e, w1) \<Rightarrow> (Inl e, w1)
      | (Inr _, w1) \<Rightarrow>
          (case (if raw_string_literal (zone_name @ ''.'') = None
                 then jmespath_compile w1 (hosted_zones_expression zone_name) else None) of
             Some e \<Rightarrow> (Inl e, w1)
           | None \<Rightarrow>
               (case route53 ListHostedZones w1 of
                  (Inl e, w2) \<Rightarrow> (Inl e, w2)
                | (Inr _, w2) \<Rightarrow>
                    (case search_hosted_zones zone_name w2 of
                       Inl IndexError \<Rightarrow>
                         (Inl (HTTPException 400 (''Hosted zone '' @ zone_name @ '' not found'') []), w2)
                     | Inl e \<Rightarrow> (Inl e, w2)
                     | Inr zone_id \<Rightarrow> (Inr zone_id, w2)))))"

text \<open>A value that is not a string is refused by the provider client before any call.\<close>

definition update_r53_record :: "string \<Rightarrow> zone_id \<Rightarrow> IPvAnyAddress \<Rightarrow> world \<Rightarrow> (exn + unit) \<times> world" where
  "update_r53_record hostname hosted_zone_id ip w =
     (let dns_ttl = 60 in
      case hosted_zone_id of
        NotAString \<Rightarrow> (Inl ParamValidationError, w)
      | ZoneId z \<Rightarrow>
          route53
            (ChangeResourceRecordSets z
               [Change UPSERT (ResourceRecordSet hostname ''A'' dns_ttl [str ip])]) w)"

text \<open>
  \<^verbatim>\<open>jmespath.search\<close> of the record filter, as a condition.  With the filter as written it
  keeps the record sets named by the first literal, whatever their type, and collects
  their values equal to the second literal; the condition holds when the collection is not
  empty.
\<close>

definition search_record_sets :: "string \<Rightarrow> IPvAnyAddress \<Rightarrow> ResourceRecordSet list \<Rightarrow> world \<Rightarrow> exn + bool" where
  "search_record_sets hostname ip listing w =
     (case (raw_string_literal (hostname @ ''.''), raw_string_literal (str ip)) of
        (Some name, Some val) \<Rightarrow>
          (let existing_match =
                 concat (map (\<lambda>r. filter (\<lambda>v. v = val) (rrs_ResourceRecords r))
                   (filter (\<lambda>r. rrs_Name r = name) listing))
           in Inr (existing_match \<noteq> []))
      | _ \<Rightarrow>
          (case jmespath_compile w (record_sets_expression hostname ip) of
             Some e \<Rightarrow> Inl e
           | None \<Rightarrow> jmespath_truthy w (record_sets_expression hostname ip) listing))"

text \<open>
  The listing is asked to start at the hostname's A record; the provider answers with the
  zone's record sets from there on, of every type.  The model hands over all record
  sets of the zone: the filter keeps those named \<^verbatim>\<open>'{hostname}.'\<close> only.
\<close>

definition is_existing_record_exists :: "string \<Rightarrow> zone_id \<Rightarrow> IPvAnyAddress \<Rightarrow> world \<Rightarrow> (exn + bool) \<times> world" where
  "is_existing_record_exists hostname hosted_zone_id ip w =
     (case hosted_zone_id of
        NotAString \<Rightarrow> (Inl ParamValidationError, w)
      | ZoneId z \<Rightarrow>
          (case route53 (ListResourceRecordSets z hostname ''A'') w of
             (Inl e, w1) \<Rightarrow> (Inl e, w1)
           | (Inr _, w1) \<Rightarrow>
               (case search_record_sets hostname ip (record_sets w1 z) w1 of
                  Inl e \<Rightarrow> (Inl e, w1)
                | Inr existing_match \<Rightarrow> (Inr existing_match, w1))))"

definition update :: "request \<Rightarrow> string \<Rightarrow> IPvAnyAddress option \<Rightarrow> world \<Rightarrow> (exn + response) \<times> world" where
  "update request hostname myip w =
     (case (case myip of None \<Rightarrow> get_ip_from_headers request w | Some ip \<Rightarrow> Inr ip) of
        Inl e \<Rightarrow> (Inl e, w)
      | Inr ip \<Rightarrow>
          (case get_hosted_zone_id_from_fqdn hostname w of
             (Inl e, w1) \<Rightarrow> (Inl e, w1)
           | (Inr hosted_zone_id, w1) \<Rightarrow>
               (case is_existing_record_exists hostname hosted_zone_id ip w1 of
                  (Inl e, w2) \<Rightarrow> (Inl e, w2)
                | (Inr ere, w2) \<Rightarrow>
                    if ere then (Inr (PlainTextResponse (''nochg '' @ str ip)), w2)
                    else
                      (case update_r53_record hostname hosted_zone_id ip w2 of
                         (Inl e, w3) \<Rightarrow> (Inl e, w3)
                       | (Inr _, w3) \<Rightarrow> (Inr (PlainTextResponse (''good '' @ str ip)), w3)))))"

text \<open>
  The route \<^verbatim>\<open>@app.get('/nic/update')\<close> as the framework runs it: the dependency
  \<^verbatim>\<open>validate_credentials\<close> (behind \<^verbatim>\<open>HTTPBasic\<close>) first, then the query parameters
  \<^verbatim>\<open>hostname: str\<close> and \<^verbatim>\<open>myip: Optional[IPvAnyAddress] = None\<close>, then the function.
\<close>

definition nic_update :: "request \<Rightarrow> world \<Rightarrow> (exn + response) \<times> world" where
  "nic_update request w =
     (case authorization request of
        None \<Rightarrow>
          (Inl (HTTPException 401 ''Not authenticated'' [(''WWW-Authenticate'', ''Basic'')]), w)
      | Some credentials \<Rightarrow>
          (case validate_credentials credentials w of
             (Inl e, w1) \<Rightarrow> (Inl e, w1)
           | (Inr _, w1) \<Rightarrow>
               (case query_params request ''hostname'' of
                  None \<Rightarrow> (Inl RequestValidationError, w1)
                | Some hostname \<Rightarrow>
                    (case query_params request ''myip'' of
                       None \<Rightarrow> update request hostname None w1
                     | Some literal \<Rightarrow>
                         (case ip_literal w1 literal of
                            None \<Rightarrow> (Inl RequestValidationError, w1)
                          | Some ip \<Rightarrow> update request hostname (Some ip) w1)))))"

subsection \<open>A concrete world\<close>

text \<open>
  The setting of the repository's unit tests: the secret \<^verbatim>\<open>dynr53/users/admin\<close> with
  password \<^verbatim>\<open>secret12345\<close>, one hosted zone \<^verbatim>\<open>example.com\<close> without record sets, a
  provider that accepts every call and adds the trailing dot to record names, and an
  address parser given by its answers on the literals used below.  The JMESPath library is
  given by its answers on the two altered zone filters used below:
  \<^verbatim>\<open>Name == 'a' || Name == 'example.com.'\<close> and
  \<^verbatim>\<open>Name == 'a' || Name == 'example.com.' || Name == 'y..'\<close> keep the zones with one of
  these names.
\<close>

definition example_normalize :: "string \<Rightarrow> string" where
  "example_normalize n = (if n \<noteq> [] \<and> last n = CHR ''.'' then n else n @ ''.'')"

definition example_ip_literal :: "string \<Rightarrow> IPvAnyAddress option" where
  "example_ip_literal =
     [''1.1.1.1'' \<mapsto> IPvAnyAddress ''1.1.1.1'',
      ''3.3.3.3'' \<mapsto> IPvAnyAddress ''3.3.3.3'',
      ''2001:db8::1'' \<mapsto> IPvAnyAddress ''2001:db8::1'']"

definition example_jmespath_zone_id :: "string \<Rightarrow> HostedZone list \<Rightarrow> exn + zone_id" where
  "example_jmespath_zone_id expression zones =
     (if expression = ''HostedZones[?Name == 'a' || Name == 'example.com.'][Id]''
      then (case filter (\<lambda>z. zone_Name z = ''a'' \<or> zone_Name z = ''example.com.'') zones of
              [] \<Rightarrow> Inl IndexError
            | z # _ \<Rightarrow> Inr (ZoneId (zone_Id z)))
      else if expression
          = ''HostedZones[?Name == 'a' || Name == 'example.com.' || Name == 'y..'][Id]''
      then (case filter (\<lambda>z. zone_Name z = ''a'' \<or> zone_Name z = ''example.com.''
                               \<or> zone_Name z = ''y..'') zones of
              [] \<Rightarrow> Inl IndexError
            | z # _ \<Rightarrow> Inr (ZoneId (zone_Id z)))
      else Inl JMESPathError)"

definition example_world :: world where
  "example_world =
     \<lparr>secrets_manager =
        Some (JSONObject [''username'' \<mapsto> ''admin'', ''password'' \<mapsto> ''secret12345'']),
      parameters_cache = None,
      hosted_zones = [HostedZone ''example.com.'' ''/hostedzone/Z1''],
      record_sets = (\<lambda>_. []),
      normalize_name = example_normalize,
      rejected = (\<lambda>_. False),
      ip_literal = example_ip_literal,
      jmespath_compile = (\<lambda>_. None),
      jmespath_zone_id = example_jmespath_zone_id,
      jmespath_truthy = (\<lambda>_ _. Inl JMESPathError),
      admin_password_cache = None,
      calls = []\<rparr>"

definition example_request :: request where
  "example_request =
     \<lparr>authorization = Some (HTTPBasicCredentials ''admin'' ''secret12345''),
      query_params = [''hostname'' \<mapsto> ''www.example.com'', ''myip'' \<mapsto> ''1.1.1.1''],
      headers = Map.empty\<rparr>"

text \<open>
  The same zone holding an A record of two values and an MX record for
  \<^verbatim>\<open>www.example.com\<close>, and holding only an AAAA record for it.
\<close>

definition example_world_two_values :: world where
  "example_world_two_values =
     example_world\<lparr>record_sets := (\<lambda>_. [])
       (''/hostedzone/Z1'' :=
          [ResourceRecordSet ''www.example.com.'' ''A'' 300 [''1.1.1.1'', ''2.2.2.2''],
           ResourceRecordSet ''www.example.com.'' ''MX'' 300 [''10 mail.example.com.'']])\<rparr>"

definition example_world_aaaa :: world where
  "example_world_aaaa =
     example_world\<lparr>record_sets := (\<lambda>_. [])
       (''/hostedzone/Z1'' :=
          [ResourceRecordSet ''www.example.com.'' ''AAAA'' 300 [''2001:db8::1'']])\<rparr>"

text \<open>
  A provider that, like Route 53, stores names in lower case (and with the trailing dot),
  and a world whose only zone is the single-label zone \<^verbatim>\<open>localhost\<close>.
\<close>

definition lower :: "char \<Rightarrow> char" where
  "lower c =
     (case map_of (zip ''ABCDEFGHIJKLMNOPQRSTUVWXYZ'' ''abcdefghijklmnopqrstuvwxyz'') c of
        Some l \<Rightarrow> l
      | None \<Rightarrow> c)"

definition example_world_lower_case :: world where
  "example_world_lower_case =
     example_world\<lparr>normalize_name := (\<lambda>n. example_normalize (map lower n))\<rparr>"

definition example_world_localhost :: world where
  "example_world_localhost =
     example_world\<lparr>hosted_zones := [HostedZone ''localhost.'' ''/hostedzone/Z2'']\<rparr>"

lemmas endpoint_defs =
  nic_update_def validate_credentials_def get_admin_password_def get_secret_def
  compare_digest_def update_def get_ip_from_headers_def get_hosted_zone_id_from_fqdn_def
  search_hosted_zones_def split1_def route53_def raw_string_literal_def
  hosted_zones_expression_def record_sets_expression_def search_record_sets_def
  is_existing_record_exists_def update_r53_record_def

lemmas example_defs =
  example_world_def example_request_def example_ip_literal_def example_normalize_def
  example_world_two_values_def example_world_aaaa_def example_jmespath_zone_id_def
  example_world_lower_case_def example_world_localhost_def lower_def

section \<open>Credentials\<close>

lemmas get_admin_password_splits = option.splits secret_string.splits

lemma get_admin_password_Inr:
  assumes "get_admin_password w = (Inr p, w')"
  shows "admin_password_cache w' = Some p"
  using assms
  by (cases "admin_password_cache w"; cases "parameters_cache w"; cases "secrets_manager w")
     (auto simp: get_admin_password_def get_secret_def split: get_admin_password_splits)

lemma get_admin_password_unavailable:
  assumes "get_admin_password w = (Inl GetParameterError, w')"
  shows "admin_password_cache w = None \<and> parameters_cache w = None \<and> secrets_manager w = None
       \<and> w' = w\<lparr>calls := calls w @ [GetSecret ''dynr53/users/admin'']\<rparr>"
  using assms
  by (cases "admin_password_cache w"; cases "parameters_cache w"; cases "secrets_manager w")
     (auto simp: get_admin_password_def get_secret_def split: get_admin_password_splits)

lemma get_admin_password_malformed:
  assumes "get_admin_password w = (Inl e, w')" and "e \<noteq> GetParameterError"
  shows "admin_password_cache w' = None
       \<and> (\<exists>secret. parameters_cache w' = Some secret
            \<and> (case secret of
                  NotJSON \<Rightarrow> e = JSONDecodeError
                | JSONObject admin_user_secret \<Rightarrow>
                    admin_user_secret ''password'' = None \<and> e = KeyError ''password''))"
  using assms
  by (cases "admin_password_cache w"; cases "parameters_cache w"; cases "secrets_manager w")
     (auto simp: get_admin_password_def get_secret_def split: get_admin_password_splits)

lemma get_admin_password_frame:
  "get_admin_password w = (r, w') \<Longrightarrow>
     filter dns_call (calls w') = filter dns_call (calls w) \<and>
     record_sets w' = record_sets w \<and> hosted_zones w' = hosted_zones w \<and>
     rejected w' = rejected w \<and> normalize_name w' = normalize_name w \<and>
     ip_literal w' = ip_literal w \<and> secrets_manager w' = secrets_manager w \<and>
     jmespath_compile w' = jmespath_compile w \<and> jmespath_zone_id w' = jmespath_zone_id w \<and>
     jmespath_truthy w' = jmespath_truthy w"
  by (cases "admin_password_cache w"; cases "parameters_cache w"; cases "secrets_manager w")
     (auto simp: get_admin_password_def get_secret_def split: get_admin_password_splits)

text \<open>
  C8 (amended).  With nothing memoized and nothing in the parameters cache, the secret
  store is contacted once; a secret with a \<^verbatim>\<open>password\<close> field gives that password, which
  is memoized, and a store that cannot be reached gives \<^verbatim>\<open>GetParameterError\<close>.  A
  memoized password is returned from then on without any call, whatever becomes of the
  store and of the parameters cache.  When the store could not be reached nothing is
  cached: the next call contacts the store again, and returns the password if the store
  then has one.  When the fetched text is not JSON or lacks the \<^verbatim>\<open>password\<close> field, the
  exception is not memoized, but the fetched text stays in the parameters cache: the next
  call fails in the same way without contacting the store, whatever the store then holds,
  and the store is contacted again only once the parameters cache has dropped the text.
\<close>

theorem get_admin_password_memo_and_retry:
  "(admin_password_cache w = None \<and> parameters_cache w = None
      \<and> secrets_manager w = Some (JSONObject secret) \<and> secret ''password'' = Some p \<longrightarrow>
      get_admin_password w
        = (Inr p, w\<lparr>calls := calls w @ [GetSecret ''dynr53/users/admin''],
                     parameters_cache := Some (JSONObject secret),
                     admin_password_cache := Some p\<rparr>))
   \<and> (get_admin_password w = (Inr p, w') \<longrightarrow>
      (\<forall>s c. get_admin_password (w'\<lparr>secrets_manager := s, parameters_cache := c\<rparr>)
               = (Inr p, w'\<lparr>secrets_manager := s, parameters_cache := c\<rparr>)))
   \<and> (get_admin_password w = (Inl GetParameterError, w') \<longrightarrow>
      admin_password_cache w' = None \<and> parameters_cache w' = None \<and>
      calls w' = calls w @ [GetSecret ''dynr53/users/admin''] \<and>
      (\<forall>s. calls (snd (get_admin_password (w'\<lparr>secrets_manager := s\<rparr>)))
             = calls w' @ [GetSecret ''dynr53/users/admin'']) \<and>
      (\<forall>secret q. secret ''password'' = Some q \<longrightarrow>
         fst (get_admin_password (w'\<lparr>secrets_manager := Some (JSONObject secret)\<rparr>)) = Inr q))
   \<and> (get_admin_password w = (Inl e, w') \<and> e \<noteq> GetParameterError \<longrightarrow>
      admin_password_cache w' = None \<and>
      (\<forall>s. get_admin_password (w'\<lparr>secrets_manager := s\<rparr>)
             = (Inl e, w'\<lparr>secrets_manager := s\<rparr>)) \<and>
      (\<forall>s. calls (snd (get_admin_password (w'\<lparr>secrets_manager := s, parameters_cache := None\<rparr>)))
             = calls w' @ [GetSecret ''dynr53/users/admin'']))
   \<and> (admin_password_cache w = None \<and> parameters_cache w = None
      \<and> secrets_manager w = None \<longrightarrow>
      get_admin_password w
        = (Inl GetParameterError, w\<lparr>calls := calls w @ [GetSecret ''dynr53/users/admin'']\<rparr>))"
proof (intro conjI impI allI)
  assume "admin_password_cache w = None \<and> parameters_cache w = None
      \<and> secrets_manager w = Some (JSONObject secret) \<and> secret ''password'' = Some p"
  then show "get_admin_password w
        = (Inr p, w\<lparr>calls := calls w @ [GetSecret ''dynr53/users/admin''],
                     parameters_cache := Some (JSONObject secret),
                     admin_password_cache := Some p\<rparr>)"
    by (simp add: get_admin_password_def get_secret_def)
next
  fix s c
  assume "get_admin_password w = (Inr p, w')"
  then have "admin_password_cache w' = Some p"
    by (rule get_admin_password_Inr)
  then show "get_admin_password (w'\<lparr>secrets_manager := s, parameters_cache := c\<rparr>)
               = (Inr p, w'\<lparr>secrets_manager := s, parameters_cache := c\<rparr>)"
    by (simp add: get_admin_password_def)
next
  assume a: "get_admin_password w = (Inl GetParameterError, w')"
  note u = get_admin_password_unavailable[OF a]
  show "admin_password_cache w' = None" "parameters_cache w' = None"
    "calls w' = calls w @ [GetSecret ''dynr53/users/admin'']"
    using u by simp_all
  {
    fix s
    show "calls (snd (get_admin_password (w'\<lparr>secrets_manager := s\<rparr>)))
             = calls w' @ [GetSecret ''dynr53/users/admin'']"
      using u
      by (cases s)
         (simp_all add: get_admin_password_def get_secret_def split: get_admin_password_splits)
  }
  {
    fix secret :: "string \<rightharpoonup> string" and q
    assume "secret ''password'' = Some q"
    then show "fst (get_admin_password (w'\<lparr>secrets_manager := Some (JSONObject secret)\<rparr>)) = Inr q"
      using u by (simp add: get_admin_password_def get_secret_def)
  }
next
  assume a: "get_admin_password w = (Inl e, w') \<and> e \<noteq> GetParameterError"
  note m = get_admin_password_malformed[OF a[THEN conjunct1] a[THEN conjunct2]]
  then obtain cached where memo: "admin_password_cache w' = None"
    and cache: "parameters_cache w' = Some cached"
    and kind: "case cached of
                  NotJSON \<Rightarrow> e = JSONDecodeError
                | JSONObject admin_user_secret \<Rightarrow>
                    admin_user_secret ''password'' = None \<and> e = KeyError ''password''"
    by blast
  show "admin_password_cache w' = None"
    using memo .
  {
    fix s
    show "get_admin_password (w'\<lparr>secrets_manager := s\<rparr>) = (Inl e, w'\<lparr>secrets_manager := s\<rparr>)"
      using memo cache kind
      by (cases cached) (simp_all add: get_admin_password_def get_secret_def)
  }
  {
    fix s
    show "calls (snd (get_admin_password (w'\<lparr>secrets_manager := s, parameters_cache := None\<rparr>)))
             = calls w' @ [GetSecret ''dynr53/users/admin'']"
      using memo
      by (cases s)
         (simp_all add: get_admin_password_def get_secret_def split: get_admin_password_splits)
  }
next
  assume "admin_password_cache w = None \<and> parameters_cache w = None \<and> secrets_manager w = None"
  then show "get_admin_password w
        = (Inl GetParameterError, w\<lparr>calls := calls w @ [GetSecret ''dynr53/users/admin'']\<rparr>)"
    by (simp add: get_admin_password_def get_secret_def)
qed

theorem get_admin_password_memo_witness:
  "get_admin_password example_world
     = (Inr ''secret12345'',
        example_world\<lparr>calls := [GetSecret ''dynr53/users/admin''],
          parameters_cache :=
            Some (JSONObject [''username'' \<mapsto> ''admin'', ''password'' \<mapsto> ''secret12345'']),
          admin_password_cache := Some ''secret12345''\<rparr>)
   \<and> get_admin_password
       (example_world\<lparr>calls := [GetSecret ''dynr53/users/admin''],
          parameters_cache :=
            Some (JSONObject [''username'' \<mapsto> ''admin'', ''password'' \<mapsto> ''secret12345'']),
          admin_password_cache := Some ''secret12345'',
          secrets_manager := None, parameters_cache := None\<rparr>)
     = (Inr ''secret12345'',
        example_world\<lparr>calls := [GetSecret ''dynr53/users/admin''],
          parameters_cache :=
            Some (JSONObject [''username'' \<mapsto> ''admin'', ''password'' \<mapsto> ''secret12345'']),
          admin_password_cache := Some ''secret12345'',
          secrets_manager := None, parameters_cache := None\<rparr>)
   \<and> calls (snd (get_admin_password
        (example_world\<lparr>secrets_manager := None,
           calls := [GetSecret ''dynr53/users/admin''],
           secrets_manager := Some (JSONObject [''password'' \<mapsto> ''secret12345''])\<rparr>)))
     = [GetSecret ''dynr53/users/admin'', GetSecret ''dynr53/users/admin'']
   \<and> get_admin_password
       (example_world\<lparr>secrets_manager := Some NotJSON,
          calls := [GetSecret ''dynr53/users/admin''],
          parameters_cache := Some NotJSON,
          secrets_manager := Some (JSONObject [''password'' \<mapsto> ''secret12345''])\<rparr>)
     = (Inl JSONDecodeError,
        example_world\<lparr>secrets_manager := Some NotJSON,
          calls := [GetSecret ''dynr53/users/admin''],
          parameters_cache := Some NotJSON,
          secrets_manager := Some (JSONObject [''password'' \<mapsto> ''secret12345''])\<rparr>)"
proof -
  let ?secret = "[''username'' \<mapsto> ''admin'', ''password'' \<mapsto> ''secret12345'']"
  let ?w1 = "example_world\<lparr>calls := [GetSecret ''dynr53/users/admin''],
          parameters_cache := Some (JSONObject ?secret),
          admin_password_cache := Some ''secret12345''\<rparr>"
  have cold: "admin_password_cache example_world = None \<and> parameters_cache example_world = None
      \<and> secrets_manager example_world = Some (JSONObject ?secret)
      \<and> ?secret ''password'' = Some ''secret12345''"
    by (simp add: example_world_def)
  have c: "calls example_world = []"
    by (simp add: example_world_def)
  note fetch = get_admin_password_memo_and_retry
    [of example_world ?secret "''secret12345''", THEN conjunct1, rule_format, OF cold]
  then have ok: "get_admin_password example_world = (Inr ''secret12345'', ?w1)"
    by (simp add: c)
  have unreachable: "get_admin_password (example_world\<lparr>secrets_manager := None\<rparr>)
      = (Inl GetParameterError,
         example_world\<lparr>secrets_manager := None,
           calls := [GetSecret ''dynr53/users/admin'']\<rparr>)"
    by (simp add: get_admin_password_def get_secret_def example_world_def)
  have malformed: "get_admin_password (example_world\<lparr>secrets_manager := Some NotJSON\<rparr>)
      = (Inl JSONDecodeError,
         example_world\<lparr>secrets_manager := Some NotJSON,
           calls := [GetSecret ''dynr53/users/admin''],
           parameters_cache := Some NotJSON\<rparr>)
      \<and> JSONDecodeError \<noteq> GetParameterError"
    by (simp add: get_admin_password_def get_secret_def example_world_def)
  note memo = get_admin_password_memo_and_retry
    [THEN conjunct2, THEN conjunct1, rule_format, OF ok, of None None]
  note retry = get_admin_password_memo_and_retry
    [THEN conjunct2, THEN conjunct2, THEN conjunct1, rule_format, OF unreachable,
     THEN conjunct2, THEN conjunct2, THEN conjunct2, THEN conjunct1, rule_format,
     of "Some (JSONObject [''password'' \<mapsto> ''secret12345''])"]
  note again = get_admin_password_memo_and_retry
    [THEN conjunct2, THEN conjunct2, THEN conjunct2, THEN conjunct1, rule_format, OF malformed,
     THEN conjunct2, THEN conjunct1, rule_format,
     of "Some (JSONObject [''password'' \<mapsto> ''secret12345''])"]
  from ok memo retry again show ?thesis by simp
qed

text \<open>
  The claim as written fails: the secret in the store lacks the \<^verbatim>\<open>password\<close> field, so
  the first call raises \<^verbatim>\<open>KeyError\<close> after one fetch; the secret is then repaired in the
  store, and the next call raises \<^verbatim>\<open>KeyError\<close> again without contacting the store, because
  the fetched text is still in the parameters cache.
\<close>

theorem malformed_secret_is_not_fetched_again:
  "get_admin_password
     (example_world\<lparr>secrets_manager := Some (JSONObject [''username'' \<mapsto> ''admin''])\<rparr>)
     = (Inl (KeyError ''password''),
        example_world\<lparr>secrets_manager := Some (JSONObject [''username'' \<mapsto> ''admin'']),
          calls := [GetSecret ''dynr53/users/admin''],
          parameters_cache := Some (JSONObject [''username'' \<mapsto> ''admin''])\<rparr>)
   \<and> fst (get_admin_password
       (example_world\<lparr>secrets_manager := Some (JSONObject [''username'' \<mapsto> ''admin'']),
          calls := [GetSecret ''dynr53/users/admin''],
          parameters_cache := Some (JSONObject [''username'' \<mapsto> ''admin'']),
          secrets_manager :=
            Some (JSONObject [''username'' \<mapsto> ''admin'', ''password'' \<mapsto> ''secret12345''])\<rparr>))
     = Inl (KeyError ''password'')
   \<and> calls (snd (get_admin_password
       (example_world\<lparr>secrets_manager := Some (JSONObject [''username'' \<mapsto> ''admin'']),
          calls := [GetSecret ''dynr53/users/admin''],
          parameters_cache := Some (JSONObject [''username'' \<mapsto> ''admin'']),
          secrets_manager :=
            Some (JSONObject [''username'' \<mapsto> ''admin'', ''password'' \<mapsto> ''secret12345''])\<rparr>)))
     = [GetSecret ''dynr53/users/admin'']"
  by (simp add: get_admin_password_def get_secret_def example_world_def)

text \<open>
  C10.  Let \<open>p\<close> be the password \<open>get_admin_password\<close> yields; with an empty memo it is the
  \<^verbatim>\<open>password\<close> field of the secret, as held by the parameters cache or else by the
  store.  A request passes \<open>validate_credentials\<close> exactly when its username is the literal
  \<^verbatim>\<open>admin\<close> and its password is \<open>p\<close>.  The secret's \<^verbatim>\<open>username\<close> field is not consulted:
  it can be changed or removed, in the store and in the cache, without changing the
  outcome.
\<close>

theorem validate_credentials_admin_literal:
  assumes "get_admin_password w = (Inr p, w1)"
  shows "(fst (validate_credentials (HTTPBasicCredentials u pw) w) = Inr ()
            \<longleftrightarrow> u = ''admin'' \<and> pw = p)
       \<and> (admin_password_cache w = None \<longrightarrow>
            (\<exists>secret. (parameters_cache w = Some (JSONObject secret)
                        \<or> parameters_cache w = None
                          \<and> secrets_manager w = Some (JSONObject secret))
               \<and> secret ''password'' = Some p))
       \<and> (\<forall>secret x. secrets_manager w = Some (JSONObject secret) \<longrightarrow>
            fst (validate_credentials (HTTPBasicCredentials u pw)
                   (w\<lparr>secrets_manager := Some (JSONObject (secret(''username'' := x)))\<rparr>))
              = fst (validate_credentials (HTTPBasicCredentials u pw) w))
       \<and> (\<forall>secret x. parameters_cache w = Some (JSONObject secret) \<longrightarrow>
            fst (validate_credentials (HTTPBasicCredentials u pw)
                   (w\<lparr>parameters_cache := Some (JSONObject (secret(''username'' := x)))\<rparr>))
              = fst (validate_credentials (HTTPBasicCredentials u pw) w))"
  using assms
  by (cases "admin_password_cache w"; cases "parameters_cache w"; cases "secrets_manager w")
     (auto simp: validate_credentials_def get_admin_password_def get_secret_def
        compare_digest_def Let_def split: get_admin_password_splits)

theorem validate_credentials_admin_literal_witness:
  "fst (validate_credentials (HTTPBasicCredentials ''admin'' ''secret12345'') example_world)
     = Inr ()
   \<and> fst (validate_credentials (HTTPBasicCredentials ''admin'' ''secret12345'')
        (example_world\<lparr>secrets_manager :=
           Some (JSONObject ([''username'' \<mapsto> ''admin'', ''password'' \<mapsto> ''secret12345'']
             (''username'' \<mapsto> ''root'')))\<rparr>))
     = Inr ()"
proof -
  have g: "get_admin_password example_world
      = (Inr ''secret12345'',
         example_world\<lparr>calls := [GetSecret ''dynr53/users/admin''],
           parameters_cache :=
             Some (JSONObject [''username'' \<mapsto> ''admin'', ''password'' \<mapsto> ''secret12345'']),
           admin_password_cache := Some ''secret12345''\<rparr>)"
    and s: "secrets_manager example_world
          = Some (JSONObject [''username'' \<mapsto> ''admin'', ''password'' \<mapsto> ''secret12345''])"
    by (simp_all add: get_admin_password_def get_secret_def example_world_def)
  note t = validate_credentials_admin_literal [OF g, of "''admin''" "''secret12345''"]
  have accepted:
    "fst (validate_credentials (HTTPBasicCredentials ''admin'' ''secret12345'') example_world)
       = Inr ()"
    using t [THEN conjunct1] by simp
  with t [THEN conjunct2, THEN conjunct2, THEN conjunct1, rule_format, OF s, of "Some ''root''"]
  show ?thesis
    by simp
qed

text \<open>
  With the admin password available, a wrong username or a wrong password makes
  \<open>validate_credentials\<close> raise the \<^verbatim>\<open>HTTPException\<close> with status 401, detail
  \<^verbatim>\<open>badauth\<close> and the header \<^verbatim>\<open>WWW-Authenticate: Basic\<close>, and no call to the DNS provider
  is made.
\<close>

lemma bad_credentials_rejected_before_dns:
  assumes "authorization request = Some (HTTPBasicCredentials u pw)"
    and "get_admin_password w = (Inr p, w1)"
    and "u \<noteq> ''admin'' \<or> pw \<noteq> p"
  shows "fst (nic_update request w)
           = Inl (HTTPException 401 ''badauth'' [(''WWW-Authenticate'', ''Basic'')])
       \<and> status_code (fst (nic_update request w)) = 401
       \<and> filter dns_call (calls (snd (nic_update request w))) = filter dns_call (calls w)
       \<and> record_sets (snd (nic_update request w)) = record_sets w"
  using assms get_admin_password_frame[OF assms(2)]
  by (auto simp: nic_update_def validate_credentials_def compare_digest_def Let_def)

text \<open>
  More generally, a request that does not pass authentication, for whatever reason (no
  credentials, wrong credentials, no password to compare with), makes no call to the DNS
  provider.
\<close>

lemma unauthenticated_request_makes_no_dns_call:
  assumes "authorization request = None
     \<or> (\<exists>credentials. authorization request = Some credentials
           \<and> fst (validate_credentials credentials w) \<noteq> Inr ())"
  shows "filter dns_call (calls (snd (nic_update request w))) = filter dns_call (calls w)
       \<and> record_sets (snd (nic_update request w)) = record_sets w"
  using assms
proof
  assume "authorization request = None"
  then show ?thesis by (simp add: nic_update_def)
next
  assume "\<exists>credentials. authorization request = Some credentials
           \<and> fst (validate_credentials credentials w) \<noteq> Inr ()"
  then obtain credentials where c: "authorization request = Some credentials"
    and n: "fst (validate_credentials credentials w) \<noteq> Inr ()"
    by blast
  obtain r w1 where g: "get_admin_password w = (r, w1)"
    by (cases "get_admin_password w")
  show ?thesis
    using c n g get_admin_password_frame[OF g]
    by (cases r) (auto simp: nic_update_def validate_credentials_def Let_def)
qed

text \<open>
  C3.  A request with a wrong password should be answered with status 401, the body
  \<^verbatim>\<open>badauth\<close> and the header \<^verbatim>\<open>WWW-Authenticate: Basic\<close>, without any call to the DNS
  provider.  Here the request of the unit test \<^verbatim>\<open>test_bad_password\<close>: the endpoint raises
  the \<^verbatim>\<open>HTTPException\<close> after the secret fetch alone, with that status and header, but what
  is sent for it is the JSON document \<^verbatim>\<open>{"detail": "badauth"}\<close>, not the text
  \<^verbatim>\<open>badauth\<close>.  And with the secret store not answering, a request with a wrong username
  ends with \<^verbatim>\<open>GetParameterError\<close>, status 500.
\<close>

theorem badauth_is_sent_as_json:
  "nic_update (example_request\<lparr>authorization :=
        Some (HTTPBasicCredentials ''admin'' ''wrong'')\<rparr>) example_world
     = (Inl (HTTPException 401 ''badauth'' [(''WWW-Authenticate'', ''Basic'')]),
        example_world\<lparr>calls := [GetSecret ''dynr53/users/admin''],
          parameters_cache :=
            Some (JSONObject [''username'' \<mapsto> ''admin'', ''password'' \<mapsto> ''secret12345'']),
          admin_password_cache := Some ''secret12345''\<rparr>)
   \<and> http_exception_handler 401 ''badauth'' [(''WWW-Authenticate'', ''Basic'')]
     = \<lparr>status = 401, response_headers = [(''WWW-Authenticate'', ''Basic'')],
        content = Some (JSON (JObject [(''detail'', JString ''badauth'')]))\<rparr>
   \<and> content (http_exception_handler 401 ''badauth'' [(''WWW-Authenticate'', ''Basic'')])
     \<noteq> Some (PlainText ''badauth'')
   \<and> nic_update (example_request\<lparr>authorization :=
        Some (HTTPBasicCredentials ''wrong'' ''secret12345'')\<rparr>)
        (example_world\<lparr>secrets_manager := None\<rparr>)
     = (Inl GetParameterError,
        example_world\<lparr>secrets_manager := None, calls := [GetSecret ''dynr53/users/admin'']\<rparr>)
   \<and> status_code (Inl GetParameterError) = 500"
  by (simp add: endpoint_defs example_defs http_exception_handler_def)

section \<open>The target address\<close>

text \<open>
  C7.  An authenticated request without \<^verbatim>\<open>myip\<close> and without the \<^verbatim>\<open>x-forwarded-for\<close>
  header makes no call to the DNS provider (neither zones nor records are queried) and
  leaves its record sets as they are; when it names a hostname, it ends with the
  \<^verbatim>\<open>HTTPException\<close> of status 400 raised by \<open>get_ip_from_headers\<close>.
\<close>

theorem undeterminable_ip_rejected_before_dns:
  assumes "authorization request = Some credentials"
    and "validate_credentials credentials w = (Inr (), w1)"
    and "query_params request ''myip'' = None"
    and "headers request ''x-forwarded-for'' = None"
  shows "(\<forall>hostname. query_params request ''hostname'' = Some hostname \<longrightarrow>
            fst (nic_update request w)
              = Inl (HTTPException 400 ''IP can not be determined from x-forward-for header'' [])
            \<and> status_code (fst (nic_update request w)) = 400)
       \<and> filter dns_call (calls (snd (nic_update request w))) = filter dns_call (calls w)
       \<and> record_sets (snd (nic_update request w)) = record_sets w"
proof -
  obtain r where g: "get_admin_password w = (r, w1)"
    using assms(2)
    by (auto simp: validate_credentials_def Let_def split: prod.splits sum.splits if_splits)
  show ?thesis
    using assms get_admin_password_frame[OF g]
    by (cases "query_params request ''hostname''")
       (simp_all add: nic_update_def update_def get_ip_from_headers_def)
qed

theorem undeterminable_ip_rejected_witness:
  "status_code (fst (nic_update
      (example_request\<lparr>query_params := [''hostname'' \<mapsto> ''www.example.com'']\<rparr>)
      example_world)) = 400
   \<and> filter dns_call (calls (snd (nic_update
      (example_request\<lparr>query_params := [''hostname'' \<mapsto> ''www.example.com'']\<rparr>)
      example_world))) = []"
proof -
  let ?request = "example_request\<lparr>query_params := [''hostname'' \<mapsto> ''www.example.com'']\<rparr>"
  have a: "authorization ?request = Some (HTTPBasicCredentials ''admin'' ''secret12345'')"
    and h: "query_params ?request ''hostname'' = Some ''www.example.com''"
    and m: "query_params ?request ''myip'' = None"
    and x: "headers ?request ''x-forwarded-for'' = None"
    by (simp_all add: example_request_def)
  have v: "validate_credentials (HTTPBasicCredentials ''admin'' ''secret12345'') example_world
      = (Inr (), example_world\<lparr>calls := [GetSecret ''dynr53/users/admin''],
           parameters_cache :=
             Some (JSONObject [''username'' \<mapsto> ''admin'', ''password'' \<mapsto> ''secret12345'']),
           admin_password_cache := Some ''secret12345''\<rparr>)"
    by (simp add: validate_credentials_def get_admin_password_def get_secret_def
        compare_digest_def example_world_def)
  have c: "filter dns_call (calls example_world) = []"
    by (simp add: example_world_def)
  note t = undeterminable_ip_rejected_before_dns[OF a v m x]
  from t [THEN conjunct1, rule_format, OF h] t [THEN conjunct2] c
  show ?thesis by simp
qed

section \<open>Zone resolution\<close>

lemma route53_listing:
  "\<not> mutating c \<Longrightarrow> route53 c w =
     (if rejected w c then Inl (ClientError c) else Inr (), w\<lparr>calls := calls w @ [c]\<rparr>)"
  by (cases c) (simp_all add: route53_def Let_def)

text \<open>A text without a quote, followed by a dot, is read as it stands; so is a text without
  quote and backslash.\<close>

lemma consume_until_dot:
  "CHR 0x27 \<notin> set s \<Longrightarrow> consume_until (s @ ''.'') = Some (s @ ''.'')"
  by (induction s rule: consume_until.induct) auto

lemma consume_until_plain:
  "CHR 0x27 \<notin> set s \<Longrightarrow> CHR 0x5C \<notin> set s \<Longrightarrow> consume_until s = Some s"
  by (induction s rule: consume_until.induct) auto

lemma replace_escaped_quote_plain:
  "CHR 0x27 \<notin> set s \<Longrightarrow> replace_escaped_quote s = s"
  by (induction s rule: replace_escaped_quote.induct) auto

lemma raw_string_literal_dot:
  "CHR 0x27 \<notin> set s \<Longrightarrow> raw_string_literal (s @ ''.'') = Some (s @ ''.'')"
  by (simp add: raw_string_literal_def consume_until_dot replace_escaped_quote_plain)

lemma raw_string_literal_plain:
  "CHR 0x27 \<notin> set s \<Longrightarrow> CHR 0x5C \<notin> set s \<Longrightarrow> raw_string_literal s = Some s"
  by (simp add: raw_string_literal_def consume_until_plain replace_escaped_quote_plain)

lemma split1_label:
  "sep \<notin> set label \<Longrightarrow> split1 sep (label @ sep # rest) = [label, rest]"
proof -
  assume a: "sep \<notin> set label"
  then have d: "dropWhile (\<lambda>c. c \<noteq> sep) (label @ sep # rest) = sep # rest"
    by (simp add: dropWhile_append)
  have t: "takeWhile (\<lambda>c. c \<noteq> sep) (label @ sep # rest) = label"
    using a by (simp add: takeWhile_append)
  show ?thesis
    by (simp only: split1_def d t list.case)
qed

text \<open>A hostname without a dot is split into one part: it is its own candidate.\<close>

lemma split1_no_separator:
  "sep \<notin> set s \<Longrightarrow> last (split1 sep s) = s"
proof -
  assume "sep \<notin> set s"
  then have d: "dropWhile (\<lambda>c. c \<noteq> sep) s = []"
    by auto
  show ?thesis
    unfolding split1_def d by simp
qed

text \<open>The candidate of a hostname that ends with a dot: empty, or ending with that dot; and
  made of the hostname's characters.\<close>

lemma split1_trailing_dot:
  "(last (split1 sep (h @ [sep])) = [] \<or> (\<exists>t. last (split1 sep (h @ [sep])) = t @ [sep]))
   \<and> set (last (split1 sep (h @ [sep]))) \<subseteq> set (h @ [sep])"
proof (cases "sep \<in> set h")
  case True
  then obtain a b where h: "h = a @ sep # b" "sep \<notin> set a"
    by (meson split_list_first)
  have "split1 sep ((a @ sep # b) @ [sep]) = [a, b @ [sep]]"
    using split1_label[OF h(2), of "b @ [sep]"] by simp
  then have "last (split1 sep (h @ [sep])) = b @ [sep]"
    using h by simp
  then show ?thesis using h by auto
next
  case False
  then have "split1 sep (h @ [sep]) = [h, []]"
    using split1_label[of sep h "[]"] by simp
  then show ?thesis by simp
qed

text \<open>With both listings answered and a candidate without a quote, the lookup is the first
  zone whose Name is the candidate followed by a dot.\<close>

lemma zone_lookup:
  assumes "\<not> rejected w (ListHostedZonesByName (last (split1 CHR ''.'' hostname)))"
    and "\<not> rejected w ListHostedZones"
    and "CHR 0x27 \<notin> set (last (split1 CHR ''.'' hostname))"
  shows "get_hosted_zone_id_from_fqdn hostname w =
     (case filter (\<lambda>z. zone_Name z = last (split1 CHR ''.'' hostname) @ ''.'') (hosted_zones w) of
        [] \<Rightarrow> Inl (HTTPException 400
                 (''Hosted zone '' @ last (split1 CHR ''.'' hostname) @ '' not found'') [])
      | z # _ \<Rightarrow> Inr (ZoneId (zone_Id z)),
      w\<lparr>calls := calls w @
          [ListHostedZonesByName (last (split1 CHR ''.'' hostname)), ListHostedZones]\<rparr>)"
  using assms(1,2)
  by (simp add: get_hosted_zone_id_from_fqdn_def search_hosted_zones_def Let_def
      route53_listing raw_string_literal_dot[OF assms(3)] split: list.splits)

text \<open>
  For a hostname \<open>label.rest\<close> whose first label holds no dot, the candidate zone name is
  \<open>rest\<close>.  With a candidate free of quotes and both zone listings answered, the result
  is the Id of the first hosted zone whose Name equals \<open>rest\<close> followed by a dot, and when
  no zone has that Name it is the \<^verbatim>\<open>HTTPException\<close> with status 400 and detail
  \<^verbatim>\<open>Hosted zone <rest> not found\<close>.
\<close>

lemma zone_resolution_strips_one_label:
  assumes "CHR ''.'' \<notin> set label"
    and "CHR 0x27 \<notin> set rest"
    and "\<not> rejected w (ListHostedZonesByName rest)"
    and "\<not> rejected w ListHostedZones"
  shows "fst (get_hosted_zone_id_from_fqdn (label @ ''.'' @ rest) w) =
     (case filter (\<lambda>z. zone_Name z = rest @ ''.'') (hosted_zones w) of
        [] \<Rightarrow> Inl (HTTPException 400 (''Hosted zone '' @ rest @ '' not found'') [])
      | z # _ \<Rightarrow> Inr (ZoneId (zone_Id z)))"
proof -
  have zn: "last (split1 CHR ''.'' (label @ ''.'' @ rest)) = rest"
    using split1_label[OF assms(1), of rest] by simp
  show ?thesis
    using zone_lookup[of w "label @ ''.'' @ rest", unfolded zn, OF assms(3,4,2)]
    by simp
qed

text \<open>
  C4.  Zone resolution should strip exactly one label and fail with status 400 when no
  zone equals the candidate.  Two requests where it does not.  The hostname
  \<^verbatim>\<open>x.a' || Name == 'example.com\<close> has the candidate \<^verbatim>\<open>a' || Name == 'example.com\<close>,
  which no zone equals; interpolated, it turns the filter into
  \<^verbatim>\<open>Name == 'a' || Name == 'example.com.'\<close>, and the Id of the zone \<^verbatim>\<open>example.com.\<close> is
  returned.  The hostname \<^verbatim>\<open>localhost\<close> has no dot: nothing is stripped, the candidate is
  the hostname itself, and the zone \<^verbatim>\<open>localhost.\<close> is returned.
\<close>

theorem zone_resolution_altered_filter_and_single_label:
  "last (split1 CHR ''.'' ''x.a' || Name == 'example.com'') = ''a' || Name == 'example.com''
   \<and> filter (\<lambda>z. zone_Name z = ''a' || Name == 'example.com'' @ ''.'')
        (hosted_zones example_world) = []
   \<and> hosted_zones_expression ''a' || Name == 'example.com''
     = ''HostedZones[?Name == 'a' || Name == 'example.com.'][Id]''
   \<and> fst (get_hosted_zone_id_from_fqdn ''x.a' || Name == 'example.com'' example_world)
     = Inr (ZoneId ''/hostedzone/Z1'')
   \<and> last (split1 CHR ''.'' ''localhost'') = ''localhost''
   \<and> fst (get_hosted_zone_id_from_fqdn ''localhost'' example_world_localhost)
     = Inr (ZoneId ''/hostedzone/Z2'')"
  by (simp add: endpoint_defs example_defs)

text \<open>
  Let a hostname end with a dot and hold no quote, the provider answer every call, and no
  hosted zone be named \<^verbatim>\<open>.\<close> or end with two dots (the provider's zone names end with
  exactly one).  Then the candidate zone name is empty or itself ends with a dot, the
  filter compares zone names against the candidate with one more dot appended, and zone
  resolution, and with it the update, ends with the \<^verbatim>\<open>HTTPException\<close> of status 400
  \<^verbatim>\<open>Hosted zone ... not found\<close>, whichever zones are registered.
\<close>

lemma trailing_dot_hostname_not_found:
  assumes "CHR 0x27 \<notin> set h"
    and "\<And>c. \<not> rejected w c"
    and "\<forall>z \<in> set (hosted_zones w). zone_Name z \<noteq> ''.'' \<and> \<not> suffix ''..'' (zone_Name z)"
  shows "(last (split1 CHR ''.'' (h @ ''.'')) = [] \<or> suffix ''.'' (last (split1 CHR ''.'' (h @ ''.''))))
     \<and> fst (get_hosted_zone_id_from_fqdn (h @ ''.'') w)
       = Inl (HTTPException 400
           (''Hosted zone '' @ last (split1 CHR ''.'' (h @ ''.'')) @ '' not found'') [])
     \<and> fst (update request (h @ ''.'') (Some ip) w)
       = Inl (HTTPException 400
           (''Hosted zone '' @ last (split1 CHR ''.'' (h @ ''.'')) @ '' not found'') [])"
proof -
  let ?zone_name = "last (split1 CHR ''.'' (h @ ''.''))"
  have shape: "?zone_name = [] \<or> (\<exists>t. ?zone_name = t @ ''.'')"
    and sub: "set ?zone_name \<subseteq> set (h @ ''.'')"
    using split1_trailing_dot[of "CHR ''.''" h] by simp_all
  have lit: "CHR 0x27 \<notin> set ?zone_name"
    using assms(1) sub by auto
  have none: "filter (\<lambda>z. zone_Name z = ?zone_name @ ''.'') (hosted_zones w) = []"
  proof -
    have "zone_Name z \<noteq> ?zone_name @ ''.''" if "z \<in> set (hosted_zones w)" for z
    proof
      assume eq: "zone_Name z = ?zone_name @ ''.''"
      from shape show False
      proof
        assume "?zone_name = []"
        with eq assms(3) that show False by simp
      next
        assume "\<exists>t. ?zone_name = t @ ''.''"
        then obtain t where "?zone_name = t @ ''.''" ..
        with eq have "zone_Name z = t @ ''..''" by simp
        then have "suffix ''..'' (zone_Name z)" by (simp add: suffix_def)
        with assms(3) that show False by blast
      qed
    qed
    then show ?thesis by (simp add: filter_empty_conv)
  qed
  have z: "get_hosted_zone_id_from_fqdn (h @ ''.'') w =
      (Inl (HTTPException 400 (''Hosted zone '' @ ?zone_name @ '' not found'') []),
       w\<lparr>calls := calls w @ [ListHostedZonesByName ?zone_name, ListHostedZones]\<rparr>)"
    using zone_lookup[of w "h @ ''.''"] assms(2) lit none by simp
  have "?zone_name = [] \<or> suffix ''.'' ?zone_name"
    using shape by (auto simp: suffix_def)
  then show ?thesis
    using z by (simp add: update_def)
qed

text \<open>
  C9.  A hostname that ends with a dot should fail with status 400, whichever zones are
  registered.  The hostname \<^verbatim>\<open>x.a' || Name == 'example.com.' || Name == 'y.\<close> ends with a
  dot; its candidate, with the further dot appended, turns the filter into
  \<^verbatim>\<open>Name == 'a' || Name == 'example.com.' || Name == 'y..'\<close>, and zone resolution returns
  the Id of the zone \<^verbatim>\<open>example.com.\<close> instead of failing.
\<close>

theorem trailing_dot_hostname_resolved_by_altered_filter:
  "last ''x.a' || Name == 'example.com.' || Name == 'y.'' = CHR ''.''
   \<and> hosted_zones_expression
        (last (split1 CHR ''.'' ''x.a' || Name == 'example.com.' || Name == 'y.''))
     = ''HostedZones[?Name == 'a' || Name == 'example.com.' || Name == 'y..'][Id]''
   \<and> get_hosted_zone_id_from_fqdn ''x.a' || Name == 'example.com.' || Name == 'y.''
        example_world
     = (Inr (ZoneId ''/hostedzone/Z1''),
        example_world\<lparr>calls :=
          [ListHostedZonesByName ''a' || Name == 'example.com.' || Name == 'y.'',
           ListHostedZones]\<rparr>)"
  by (simp add: endpoint_defs example_defs)

section \<open>Reconciliation\<close>

lemma existing_match_iff:
  "(concat (map (\<lambda>r. filter (\<lambda>v. v = val) (rrs_ResourceRecords r))
       (filter (\<lambda>r. rrs_Name r = name) rs)) \<noteq> [])
   \<longleftrightarrow> (\<exists>r \<in> set rs. rrs_Name r = name \<and> val \<in> set (rrs_ResourceRecords r))"
  by (auto simp: filter_empty_conv)

text \<open>With a hostname free of quotes and an address text free of quotes and backslashes, the
  record filter is the one written in the source.\<close>

lemma search_record_sets_plain:
  assumes "CHR 0x27 \<notin> set hostname"
    and "CHR 0x27 \<notin> set (str ip)" "CHR 0x5C \<notin> set (str ip)"
  shows "search_record_sets hostname ip listing w
     = Inr (\<exists>r \<in> set listing. rrs_Name r = hostname @ ''.'' \<and> str ip \<in> set (rrs_ResourceRecords r))"
  by (simp add: search_record_sets_def raw_string_literal_dot[OF assms(1)]
      raw_string_literal_plain[OF assms(2,3)] existing_match_iff del: concat_eq_Nil_conv)

lemma is_existing_record_exists_eq:
  assumes "\<not> rejected w (ListResourceRecordSets z hostname ''A'')"
    and "CHR 0x27 \<notin> set hostname"
    and "CHR 0x27 \<notin> set (str ip)" "CHR 0x5C \<notin> set (str ip)"
  shows "is_existing_record_exists hostname (ZoneId z) ip w
           = (Inr (\<exists>r \<in> set (record_sets w z).
                      rrs_Name r = hostname @ ''.'' \<and> str ip \<in> set (rrs_ResourceRecords r)),
              w\<lparr>calls := calls w @ [ListResourceRecordSets z hostname ''A'']\<rparr>)"
  using assms(1)
  by (simp add: is_existing_record_exists_def route53_listing
      search_record_sets_plain[OF assms(2-4)])

lemma is_existing_record_exists_Inr:
  assumes "is_existing_record_exists hostname hosted_zone_id ip w = (Inr b, w')"
  shows "\<exists>z. hosted_zone_id = ZoneId z \<and> \<not> rejected w (ListResourceRecordSets z hostname ''A'')"
  using assms
  by (cases hosted_zone_id)
     (auto simp: is_existing_record_exists_def route53_listing split: if_splits sum.splits)

lemma get_hosted_zone_id_from_fqdn_frame:
  "get_hosted_zone_id_from_fqdn hostname w = (r, w') \<Longrightarrow>
     w' = w\<lparr>calls := calls w'\<rparr> \<and>
     filter mutating (calls w') = filter mutating (calls w)"
  by (auto simp: get_hosted_zone_id_from_fqdn_def Let_def route53_listing
      split: option.splits sum.splits exn.splits if_splits)

lemma search_hosted_zones_calls:
  "search_hosted_zones zone_name (w\<lparr>calls := cs\<rparr>) = search_hosted_zones zone_name w"
  by (simp add: search_hosted_zones_def split: option.splits)

lemma search_hosted_zones_cong:
  "hosted_zones w' = hosted_zones w \<Longrightarrow> jmespath_zone_id w' = jmespath_zone_id w \<Longrightarrow>
     search_hosted_zones zone_name w' = search_hosted_zones zone_name w"
  by (simp add: search_hosted_zones_def split: option.splits)

lemma get_hosted_zone_id_from_fqdn_cong:
  assumes "rejected w' = rejected w" "hosted_zones w' = hosted_zones w"
    and "jmespath_compile w' = jmespath_compile w" "jmespath_zone_id w' = jmespath_zone_id w"
  shows "fst (get_hosted_zone_id_from_fqdn hostname w') = fst (get_hosted_zone_id_from_fqdn hostname w)"
  using assms(1,3)
  by (simp add: get_hosted_zone_id_from_fqdn_def Let_def route53_listing
      search_hosted_zones_calls search_hosted_zones_cong[OF assms(2,4)]
      split: option.splits sum.splits exn.splits)

lemma update_r53_record_eq:
  "update_r53_record hostname (ZoneId z) ip w =
     (if rejected w (ChangeResourceRecordSets z
            [Change UPSERT (ResourceRecordSet hostname ''A'' 60 [str ip])])
      then (Inl (ClientError (ChangeResourceRecordSets z
            [Change UPSERT (ResourceRecordSet hostname ''A'' 60 [str ip])])),
            w\<lparr>calls := calls w @ [ChangeResourceRecordSets z
              [Change UPSERT (ResourceRecordSet hostname ''A'' 60 [str ip])]]\<rparr>)
      else (Inr (),
            w\<lparr>calls := calls w @ [ChangeResourceRecordSets z
                [Change UPSERT (ResourceRecordSet hostname ''A'' 60 [str ip])]],
              record_sets := (record_sets w)
                (z := apply_change (normalize_name w) (record_sets w z)
                   (Change UPSERT (ResourceRecordSet hostname ''A'' 60 [str ip])))\<rparr>))"
  by (simp add: update_r53_record_def route53_def Let_def)

lemma upsert_present:
  "normalized norm r \<in> set (apply_change norm rs (Change UPSERT r))"
  by (auto simp: same_record_set_def)

lemma upsert_others:
  "filter (\<lambda>x. \<not> same_record_set x (normalized norm r)) (apply_change norm rs (Change UPSERT r))
     = filter (\<lambda>x. \<not> same_record_set x (normalized norm r)) rs"
proof -
  have "filter (\<lambda>x. \<not> same_record_set x r')
          (map (\<lambda>x. if same_record_set x r' then r' else x) rs)
        = filter (\<lambda>x. \<not> same_record_set x r') rs" for r'
    by (induction rs) (simp_all add: same_record_set_def)
  then show ?thesis
    by (simp add: same_record_set_def)
qed

text \<open>The update after its address is known, step by step.\<close>

lemma update_steps:
  assumes "get_hosted_zone_id_from_fqdn hostname w = (Inr hosted_zone_id, w1)"
    and "is_existing_record_exists hostname hosted_zone_id ip w1 = (Inr ere, w2)"
  shows "update request hostname (Some ip) w =
     (if ere then (Inr (PlainTextResponse (''nochg '' @ str ip)), w2)
      else (case update_r53_record hostname hosted_zone_id ip w2 of
              (Inl e, w3) \<Rightarrow> (Inl e, w3)
            | (Inr _, w3) \<Rightarrow> (Inr (PlainTextResponse (''good '' @ str ip)), w3)))"
  using assms by (simp add: update_def)

lemma update_header:
  "get_ip_from_headers request w = Inr ip \<Longrightarrow>
     update request hostname None w = update request hostname (Some ip) w"
  by (simp add: update_def)

lemma update_good:
  assumes "update request hostname (Some ip) w = (Inr (PlainTextResponse (''good '' @ a)), w')"
  shows "\<exists>z w1 w2. get_hosted_zone_id_from_fqdn hostname w = (Inr (ZoneId z), w1)
         \<and> is_existing_record_exists hostname (ZoneId z) ip w1 = (Inr False, w2)
         \<and> update_r53_record hostname (ZoneId z) ip w2 = (Inr (), w') \<and> a = str ip"
proof -
  from assms obtain hosted_zone_id w1 w2 where
    zone: "get_hosted_zone_id_from_fqdn hostname w = (Inr hosted_zone_id, w1)"
    and look: "is_existing_record_exists hostname hosted_zone_id ip w1 = (Inr False, w2)"
    and ups: "update_r53_record hostname hosted_zone_id ip w2 = (Inr (), w')" and a: "a = str ip"
    by (auto simp: update_def split: prod.splits sum.splits if_splits)
  from is_existing_record_exists_Inr[OF look] obtain z where "hosted_zone_id = ZoneId z"
    by blast
  with zone look ups a show ?thesis by blast
qed

lemma validate_credentials_again:
  assumes "validate_credentials credentials w = (Inr (), w1)"
    and "admin_password_cache w' = admin_password_cache w1"
  shows "validate_credentials credentials w' = (Inr (), w')"
proof -
  from assms(1) obtain p where g: "get_admin_password w = (Inr p, w1)"
    and c: "compare_digest ''admin'' (username credentials)" "compare_digest p (password credentials)"
    by (auto simp: validate_credentials_def Let_def split: prod.splits sum.splits if_splits)
  have "admin_password_cache w' = Some p"
    using get_admin_password_Inr[OF g] assms(2) by simp
  then show ?thesis
    using c by (simp add: validate_credentials_def get_admin_password_def)
qed

lemma validate_credentials_frame:
  assumes "validate_credentials credentials w = (r, w1)"
  shows "filter dns_call (calls w1) = filter dns_call (calls w) \<and>
     record_sets w1 = record_sets w \<and> hosted_zones w1 = hosted_zones w \<and>
     rejected w1 = rejected w \<and> normalize_name w1 = normalize_name w \<and>
     ip_literal w1 = ip_literal w \<and> secrets_manager w1 = secrets_manager w \<and>
     jmespath_compile w1 = jmespath_compile w \<and> jmespath_zone_id w1 = jmespath_zone_id w \<and>
     jmespath_truthy w1 = jmespath_truthy w"
proof -
  obtain r' where g: "get_admin_password w = (r', w1)"
    using assms
    by (auto simp: validate_credentials_def Let_def split: prod.splits sum.splits if_splits)
  show ?thesis using get_admin_password_frame[OF g] .
qed

lemma filter_mutating_dns_call:
  "filter mutating (filter dns_call cs) = filter mutating cs"
proof -
  have "dns_call c \<and> mutating c \<longleftrightarrow> mutating c" for c
    by (cases c) simp_all
  then show ?thesis by (simp add: filter_filter)
qed

lemma dns_call_frame_mutating:
  "filter dns_call cs' = filter dns_call cs \<Longrightarrow> filter mutating cs' = filter mutating cs"
  by (metis filter_mutating_dns_call)

lemma calls_only:
  "w' = w\<lparr>calls := cs\<rparr> \<Longrightarrow>
     record_sets w' = record_sets w \<and> hosted_zones w' = hosted_zones w \<and>
     rejected w' = rejected w \<and> normalize_name w' = normalize_name w \<and>
     ip_literal w' = ip_literal w \<and> secrets_manager w' = secrets_manager w \<and>
     admin_password_cache w' = admin_password_cache w \<and>
     parameters_cache w' = parameters_cache w \<and>
     jmespath_compile w' = jmespath_compile w \<and> jmespath_zone_id w' = jmespath_zone_id w \<and>
     jmespath_truthy w' = jmespath_truthy w"
  by simp

lemma is_existing_record_exists_frame:
  "is_existing_record_exists hostname hosted_zone_id ip w = (r, w') \<Longrightarrow>
     w' = w\<lparr>calls := calls w'\<rparr> \<and>
     filter mutating (calls w') = filter mutating (calls w)"
  by (cases hosted_zone_id)
     (auto simp: is_existing_record_exists_def Let_def route53_listing
      split: sum.splits if_splits)

lemma get_ip_from_headers_cong:
  "ip_literal w' = ip_literal w \<Longrightarrow> get_ip_from_headers request w' = get_ip_from_headers request w"
  by (simp add: get_ip_from_headers_def split: option.splits)

text \<open>An authenticated request with a hostname and an address reaches \<open>update\<close> with them.\<close>

lemma nic_update_authenticated:
  assumes "authorization request = Some credentials"
    and "validate_credentials credentials w = (Inr (), w1)"
    and "query_params request ''hostname'' = Some hostname"
    and "query_params request ''myip'' = Some literal \<and> ip_literal w literal = Some ip
       \<or> query_params request ''myip'' = None \<and> get_ip_from_headers request w = Inr ip"
  shows "nic_update request w = update request hostname (Some ip) w1"
proof -
  have lit: "ip_literal w1 = ip_literal w"
    using validate_credentials_frame[OF assms(2)] by simp
  from assms(4) show ?thesis
  proof
    assume "query_params request ''myip'' = Some literal \<and> ip_literal w literal = Some ip"
    then show ?thesis
      using assms(1-3) lit by (simp add: nic_update_def)
  next
    assume a: "query_params request ''myip'' = None \<and> get_ip_from_headers request w = Inr ip"
    then have "get_ip_from_headers request w1 = Inr ip"
      using get_ip_from_headers_cong[OF lit] by simp
    then show ?thesis
      using assms(1-3) a by (simp add: nic_update_def update_header)
  qed
qed

lemma update_nochg:
  assumes zone: "get_hosted_zone_id_from_fqdn hostname w = (Inr (ZoneId z), w1)"
    and listed: "\<not> rejected w (ListResourceRecordSets z hostname ''A'')"
    and plain: "CHR 0x27 \<notin> set hostname" "CHR 0x27 \<notin> set (str ip)" "CHR 0x5C \<notin> set (str ip)"
    and rec: "r \<in> set (record_sets w z)" "rrs_Name r = hostname @ ''.''"
      "str ip \<in> set (rrs_ResourceRecords r)"
  shows "update request hostname (Some ip) w
       = (Inr (PlainTextResponse (''nochg '' @ str ip)),
          w1\<lparr>calls := calls w1 @ [ListResourceRecordSets z hostname ''A'']\<rparr>)"
proof -
  note f = get_hosted_zone_id_from_fqdn_frame[OF zone]
  have same: "record_sets w1 = record_sets w" "rejected w1 = rejected w"
    using calls_only[OF f[THEN conjunct1]] by simp_all
  have "\<exists>r \<in> set (record_sets w1 z).
      rrs_Name r = hostname @ ''.'' \<and> str ip \<in> set (rrs_ResourceRecords r)"
    using rec same by auto
  then have "is_existing_record_exists hostname (ZoneId z) ip w1
      = (Inr True, w1\<lparr>calls := calls w1 @ [ListResourceRecordSets z hostname ''A'']\<rparr>)"
    using is_existing_record_exists_eq[of w1 z hostname ip] listed plain same by simp
  from update_steps[OF zone this] show ?thesis by simp
qed

text \<open>
  Where the repeated update is answered \<^verbatim>\<open>nochg\<close>.  Take an authenticated request with a
  hostname and a target address \<open>ip\<close> (the parsed \<^verbatim>\<open>myip\<close>, or without \<^verbatim>\<open>myip\<close> the parsed
  header), the hostname free of quotes and the address text free of quotes and
  backslashes.  First: if the zone resolves, the record listing is answered and the zone
  has an A record set named \<^verbatim>\<open><hostname>.\<close> with a value equal to \<^verbatim>\<open>str(ip)\<close>, then the
  response is \<^verbatim>\<open>nochg <ip>\<close>, no change call has been logged and the record sets are as
  before.  Second: if the response is \<^verbatim>\<open>good <ip>\<close> and the provider stores the hostname
  under \<^verbatim>\<open><hostname>.\<close>, exactly as it was typed, then the same request sent again is
  answered \<^verbatim>\<open>nochg <ip>\<close>, again without a change call and without a change of the record
  sets.
\<close>

lemma repeated_update_is_nochg_when_stored_as_typed:
  assumes auth: "authorization request = Some credentials"
      "validate_credentials credentials w = (Inr (), w1)"
    and host: "query_params request ''hostname'' = Some hostname"
    and ip: "query_params request ''myip'' = Some literal \<and> ip_literal w literal = Some ip
       \<or> query_params request ''myip'' = None \<and> get_ip_from_headers request w = Inr ip"
    and plain: "CHR 0x27 \<notin> set hostname" "CHR 0x27 \<notin> set (str ip)" "CHR 0x5C \<notin> set (str ip)"
  shows "(\<forall>z w2 r.
            get_hosted_zone_id_from_fqdn hostname w1 = (Inr (ZoneId z), w2)
            \<and> \<not> rejected w (ListResourceRecordSets z hostname ''A'')
            \<and> r \<in> set (record_sets w z) \<and> rrs_Type r = ''A''
            \<and> rrs_Name r = hostname @ ''.'' \<and> str ip \<in> set (rrs_ResourceRecords r)
          \<longrightarrow> fst (nic_update request w) = Inr (PlainTextResponse (''nochg '' @ str ip))
            \<and> filter mutating (calls (snd (nic_update request w))) = filter mutating (calls w)
            \<and> record_sets (snd (nic_update request w)) = record_sets w)
       \<and> (fst (nic_update request w) = Inr (PlainTextResponse (''good '' @ str ip))
            \<and> normalize_name w hostname = hostname @ ''.''
          \<longrightarrow> fst (nic_update request (snd (nic_update request w)))
                = Inr (PlainTextResponse (''nochg '' @ str ip))
            \<and> filter mutating (calls (snd (nic_update request (snd (nic_update request w)))))
                = filter mutating (calls (snd (nic_update request w)))
            \<and> record_sets (snd (nic_update request (snd (nic_update request w))))
                = record_sets (snd (nic_update request w)))"
proof (intro conjI allI impI)
  note v = validate_credentials_frame[OF auth(2)]
  note n = nic_update_authenticated[OF auth host ip]
  {
    fix z w2 r
    assume a: "get_hosted_zone_id_from_fqdn hostname w1 = (Inr (ZoneId z), w2)
            \<and> \<not> rejected w (ListResourceRecordSets z hostname ''A'')
            \<and> r \<in> set (record_sets w z) \<and> rrs_Type r = ''A''
            \<and> rrs_Name r = hostname @ ''.'' \<and> str ip \<in> set (rrs_ResourceRecords r)"
    then have zone: "get_hosted_zone_id_from_fqdn hostname w1 = (Inr (ZoneId z), w2)" by simp
    note f = get_hosted_zone_id_from_fqdn_frame[OF zone]
    have u: "update request hostname (Some ip) w1
       = (Inr (PlainTextResponse (''nochg '' @ str ip)),
          w2\<lparr>calls := calls w2 @ [ListResourceRecordSets z hostname ''A'']\<rparr>)"
      using update_nochg[OF zone _ plain, of r request] a v by simp
    show "fst (nic_update request w) = Inr (PlainTextResponse (''nochg '' @ str ip))"
      using n u by simp
    have "filter mutating (calls w1) = filter mutating (calls w)"
      using v dns_call_frame_mutating by blast
    then show "filter mutating (calls (snd (nic_update request w))) = filter mutating (calls w)"
      using n u f by simp
    show "record_sets (snd (nic_update request w)) = record_sets w"
      using n u calls_only[OF f[THEN conjunct1]] v by simp
  }
  assume b: "fst (nic_update request w) = Inr (PlainTextResponse (''good '' @ str ip))
            \<and> normalize_name w hostname = hostname @ ''.''"
  obtain w' where w': "nic_update request w = (Inr (PlainTextResponse (''good '' @ str ip)), w')"
    using b by (cases "nic_update request w") simp
  then have first: "update request hostname (Some ip) w1
      = (Inr (PlainTextResponse (''good '' @ str ip)), w')"
    using n by simp
  from update_good[OF first] obtain z w2 w3 where
    zone: "get_hosted_zone_id_from_fqdn hostname w1 = (Inr (ZoneId z), w2)"
    and look: "is_existing_record_exists hostname (ZoneId z) ip w2 = (Inr False, w3)"
    and ups: "update_r53_record hostname (ZoneId z) ip w3 = (Inr (), w')"
    by blast
  let ?change = "Change UPSERT (ResourceRecordSet hostname ''A'' 60 [str ip])"
  note f2 = calls_only[OF get_hosted_zone_id_from_fqdn_frame[OF zone, THEN conjunct1]]
  note f3 = calls_only[OF is_existing_record_exists_frame[OF look, THEN conjunct1]]
  have w'_eq: "w' = w3\<lparr>calls := calls w3 @ [ChangeResourceRecordSets z [?change]],
        record_sets := (record_sets w3)
          (z := apply_change (normalize_name w3) (record_sets w3 z) ?change)\<rparr>"
    using ups by (simp add: update_r53_record_eq del: apply_change.simps split: if_splits)
  have static: "hosted_zones w' = hosted_zones w1" "rejected w' = rejected w1"
      "normalize_name w3 = normalize_name w" "ip_literal w' = ip_literal w"
      "admin_password_cache w' = admin_password_cache w1" "rejected w1 = rejected w"
      "jmespath_compile w' = jmespath_compile w1" "jmespath_zone_id w' = jmespath_zone_id w1"
    using w'_eq f2 f3 v by simp_all
  have auth': "validate_credentials credentials w' = (Inr (), w')"
    using validate_credentials_again[OF auth(2) static(5)] .
  have ip': "query_params request ''myip'' = Some literal \<and> ip_literal w' literal = Some ip
       \<or> query_params request ''myip'' = None \<and> get_ip_from_headers request w' = Inr ip"
    using ip get_ip_from_headers_cong[OF static(4)] static(4) by simp
  note n' = nic_update_authenticated[OF auth(1) auth' host ip']
  obtain w4 where zone': "get_hosted_zone_id_from_fqdn hostname w' = (Inr (ZoneId z), w4)"
    using get_hosted_zone_id_from_fqdn_cong[OF static(2) static(1) static(7) static(8), of hostname]
      zone
    by (cases "get_hosted_zone_id_from_fqdn hostname w'") simp
  from is_existing_record_exists_Inr[OF look]
  have "\<not> rejected w2 (ListResourceRecordSets z hostname ''A'')" by simp
  then have listed: "\<not> rejected w' (ListResourceRecordSets z hostname ''A'')"
    using f2 static by simp
  have present: "ResourceRecordSet (hostname @ ''.'') ''A'' 60 [str ip] \<in> set (record_sets w' z)"
    using upsert_present[of "normalize_name w" "ResourceRecordSet hostname ''A'' 60 [str ip]"
        "record_sets w3 z"] b static(3)
    by (simp add: w'_eq normalized_def)
  have u: "update request hostname (Some ip) w'
       = (Inr (PlainTextResponse (''nochg '' @ str ip)),
          w4\<lparr>calls := calls w4 @ [ListResourceRecordSets z hostname ''A'']\<rparr>)"
    using update_nochg[OF zone' listed plain present, of request] by simp
  note f4 = get_hosted_zone_id_from_fqdn_frame[OF zone']
  have second: "nic_update request (snd (nic_update request w))
       = (Inr (PlainTextResponse (''nochg '' @ str ip)),
          w4\<lparr>calls := calls w4 @ [ListResourceRecordSets z hostname ''A'']\<rparr>)"
    using n' u w' by simp
  show "fst (nic_update request (snd (nic_update request w)))
                = Inr (PlainTextResponse (''nochg '' @ str ip))"
    using second by simp
  show "filter mutating (calls (snd (nic_update request (snd (nic_update request w)))))
                = filter mutating (calls (snd (nic_update request w)))"
    using second f4 w' by simp
  show "record_sets (snd (nic_update request (snd (nic_update request w))))
                = record_sets (snd (nic_update request w))"
    using second calls_only[OF f4[THEN conjunct1]] w' by simp
qed

text \<open>
  C1.  Sent twice in succession, an update should be answered \<^verbatim>\<open>good <ip>\<close> and then
  \<^verbatim>\<open>nochg <ip>\<close>, the second time without a change call.  The lookup compares the names
  of the listed record sets, as the provider stores them, with the hostname as it was
  typed followed by a dot.  Against a provider that stores names in lower case, the
  authenticated request for \<^verbatim>\<open>WWW.example.com\<close> and \<^verbatim>\<open>1.1.1.1\<close> is answered
  \<^verbatim>\<open>good 1.1.1.1\<close>, the zone then holds the A record set \<^verbatim>\<open>www.example.com.\<close> with that
  value, and the same request sent again is answered \<^verbatim>\<open>good 1.1.1.1\<close> once more: two
  UPSERT calls have been made.
\<close>

theorem repeated_update_of_upper_case_hostname_is_good_twice:
  "fst (nic_update
        (example_request\<lparr>query_params :=
           [''hostname'' \<mapsto> ''WWW.example.com'', ''myip'' \<mapsto> ''1.1.1.1'']\<rparr>)
        example_world_lower_case)
     = Inr (PlainTextResponse ''good 1.1.1.1'')
   \<and> record_sets (snd (nic_update
        (example_request\<lparr>query_params :=
           [''hostname'' \<mapsto> ''WWW.example.com'', ''myip'' \<mapsto> ''1.1.1.1'']\<rparr>)
        example_world_lower_case)) ''/hostedzone/Z1''
     = [ResourceRecordSet ''www.example.com.'' ''A'' 60 [''1.1.1.1'']]
   \<and> fst (nic_update
        (example_request\<lparr>query_params :=
           [''hostname'' \<mapsto> ''WWW.example.com'', ''myip'' \<mapsto> ''1.1.1.1'']\<rparr>)
        (snd (nic_update
           (example_request\<lparr>query_params :=
              [''hostname'' \<mapsto> ''WWW.example.com'', ''myip'' \<mapsto> ''1.1.1.1'']\<rparr>)
           example_world_lower_case)))
     = Inr (PlainTextResponse ''good 1.1.1.1'')
   \<and> filter mutating (calls (snd (nic_update
        (example_request\<lparr>query_params :=
           [''hostname'' \<mapsto> ''WWW.example.com'', ''myip'' \<mapsto> ''1.1.1.1'']\<rparr>)
        (snd (nic_update
           (example_request\<lparr>query_params :=
              [''hostname'' \<mapsto> ''WWW.example.com'', ''myip'' \<mapsto> ''1.1.1.1'']\<rparr>)
           example_world_lower_case)))))
     = [ChangeResourceRecordSets ''/hostedzone/Z1''
          [Change UPSERT (ResourceRecordSet ''WWW.example.com'' ''A'' 60 [''1.1.1.1''])],
        ChangeResourceRecordSets ''/hostedzone/Z1''
          [Change UPSERT (ResourceRecordSet ''WWW.example.com'' ''A'' 60 [''1.1.1.1''])]]"
  by (simp add: endpoint_defs example_defs same_record_set_def normalized_def Let_def
      del: concat_eq_Nil_conv)

text \<open>What the code does when no listed record set of the name carries the address.\<close>

lemma update_good_when_unmatched:
  assumes zone: "get_hosted_zone_id_from_fqdn hostname w = (Inr (ZoneId z), w1)"
    and listed: "\<not> rejected w (ListResourceRecordSets z hostname ''A'')"
    and accepted: "\<not> rejected w (ChangeResourceRecordSets z
         [Change UPSERT (ResourceRecordSet hostname ''A'' 60 [str ip])])"
    and plain: "CHR 0x27 \<notin> set hostname" "CHR 0x27 \<notin> set (str ip)" "CHR 0x5C \<notin> set (str ip)"
    and unmatched: "\<not> (\<exists>r \<in> set (record_sets w z).
        rrs_Name r = hostname @ ''.'' \<and> str ip \<in> set (rrs_ResourceRecords r))"
  shows "update request hostname (Some ip) w
       = (Inr (PlainTextResponse (''good '' @ str ip)),
          w1\<lparr>calls := calls w1 @
              [ListResourceRecordSets z hostname ''A'',
               ChangeResourceRecordSets z
                 [Change UPSERT (ResourceRecordSet hostname ''A'' 60 [str ip])]],
            record_sets := (record_sets w)
              (z := apply_change (normalize_name w) (record_sets w z)
                 (Change UPSERT (ResourceRecordSet hostname ''A'' 60 [str ip])))\<rparr>)"
proof -
  note f = get_hosted_zone_id_from_fqdn_frame[OF zone]
  have same: "record_sets w1 = record_sets w" "rejected w1 = rejected w"
      "normalize_name w1 = normalize_name w"
    using calls_only[OF f[THEN conjunct1]] by simp_all
  have look: "is_existing_record_exists hostname (ZoneId z) ip w1
      = (Inr False, w1\<lparr>calls := calls w1 @ [ListResourceRecordSets z hostname ''A'']\<rparr>)"
    using is_existing_record_exists_eq[of w1 z hostname ip] listed plain same unmatched by simp
  show ?thesis
    using update_steps[OF zone look, of request] accepted same
    by (simp add: update_r53_record_eq del: apply_change.simps)
qed

text \<open>
  C2.  An update for a hostname without a matching A record should issue one UPSERT of
  an A record and answer \<^verbatim>\<open>good <ip>\<close>.  The lookup, however, compares the name and the
  values of the listed record sets and never their type.  In \<open>example_world_aaaa\<close> the
  hostname has no A record, only an AAAA record with the value \<^verbatim>\<open>2001:db8::1\<close>.  The
  authenticated request for that address is answered \<^verbatim>\<open>nochg 2001:db8::1\<close>, and the calls
  made are the secret fetch and the three listings: no UPSERT of an A record is issued.
\<close>

theorem type_blind_match_suppresses_upsert:
  "filter (\<lambda>r. rrs_Type r = ''A'') (record_sets example_world_aaaa ''/hostedzone/Z1'') = []
   \<and> fst (nic_update
        (example_request\<lparr>query_params :=
           [''hostname'' \<mapsto> ''www.example.com'', ''myip'' \<mapsto> ''2001:db8::1'']\<rparr>)
        example_world_aaaa)
     = Inr (PlainTextResponse ''nochg 2001:db8::1'')
   \<and> calls (snd (nic_update
        (example_request\<lparr>query_params :=
           [''hostname'' \<mapsto> ''www.example.com'', ''myip'' \<mapsto> ''2001:db8::1'']\<rparr>)
        example_world_aaaa))
     = [GetSecret ''dynr53/users/admin'', ListHostedZonesByName ''example.com'',
        ListHostedZones,
        ListResourceRecordSets ''/hostedzone/Z1'' ''www.example.com'' ''A'']"
  by (simp add: endpoint_defs example_defs del: concat_eq_Nil_conv)

text \<open>Every run of \<open>update\<close> leaves the record sets alone or makes one UPSERT for its address.\<close>

lemma update_effect_ip:
  assumes "update request hostname (Some ip) w = (r, w')"
  shows "(filter mutating (calls w') = filter mutating (calls w) \<and> record_sets w' = record_sets w)
     \<or> (\<exists>z. filter mutating (calls w') = filter mutating (calls w) @
            [ChangeResourceRecordSets z
               [Change UPSERT (ResourceRecordSet hostname ''A'' 60 [str ip])]]
          \<and> (record_sets w' = record_sets w
             \<or> record_sets w' = (record_sets w)
                 (z := apply_change (normalize_name w) (record_sets w z)
                    (Change UPSERT (ResourceRecordSet hostname ''A'' 60 [str ip])))))"
proof -
  obtain r1 w1 where zone: "get_hosted_zone_id_from_fqdn hostname w = (r1, w1)"
    by (cases "get_hosted_zone_id_from_fqdn hostname w")
  note f1 = get_hosted_zone_id_from_fqdn_frame[OF zone]
  note s1 = calls_only[OF f1[THEN conjunct1]]
  show ?thesis
  proof (cases r1)
    case (Inl e)
    then show ?thesis using assms zone f1 s1 by (auto simp: update_def)
  next
    case z: (Inr hosted_zone_id)
    obtain r2 w2 where look: "is_existing_record_exists hostname hosted_zone_id ip w1 = (r2, w2)"
      by (cases "is_existing_record_exists hostname hosted_zone_id ip w1")
    note f2 = is_existing_record_exists_frame[OF look]
    note s2 = calls_only[OF f2[THEN conjunct1]]
    show ?thesis
    proof (cases r2)
      case (Inl e)
      then show ?thesis using assms zone z look f1 s1 f2 s2 by (auto simp: update_def)
    next
      case ere: (Inr ere)
      show ?thesis
      proof (cases ere)
        case True
        then show ?thesis using assms zone z look ere f1 s1 f2 s2 by (auto simp: update_def)
      next
        case False
        from is_existing_record_exists_Inr[OF look[unfolded ere]]
        obtain z' where zid: "hosted_zone_id = ZoneId z'" by blast
        let ?c = "ChangeResourceRecordSets z'
               [Change UPSERT (ResourceRecordSet hostname ''A'' 60 [str ip])]"
        have w': "w' = snd (update_r53_record hostname (ZoneId z') ip w2)"
          using assms zone z look ere False zid
          by (auto simp: update_def split: prod.splits sum.splits)
        have m: "filter mutating (calls w') = filter mutating (calls w) @ [?c]"
          using w' f1 f2 by (simp add: update_r53_record_eq del: apply_change.simps)
        have "record_sets w' = record_sets w
             \<or> record_sets w' = (record_sets w)
                 (z' := apply_change (normalize_name w) (record_sets w z')
                    (Change UPSERT (ResourceRecordSet hostname ''A'' 60 [str ip])))"
          using w' s1 s2 by (simp add: update_r53_record_eq del: apply_change.simps)
        with m show ?thesis by blast
      qed
    qed
  qed
qed

lemma update_response:
  assumes "update request hostname (Some ip) w = (Inr resp, w')"
  shows "body resp = ''good '' @ str ip \<or> body resp = ''nochg '' @ str ip"
  using assms by (auto simp: update_def split: prod.splits sum.splits if_splits)

lemma update_cases:
  "(\<exists>e. update request hostname myip w = (Inl e, w))
   \<or> (\<exists>ip. update request hostname myip w = update request hostname (Some ip) w)"
  by (cases myip; cases "get_ip_from_headers request w") (auto simp: update_def)

lemma nic_update_cases:
  assumes "nic_update request w = (r, w')"
  shows "(filter mutating (calls w') = filter mutating (calls w) \<and> record_sets w' = record_sets w)
    \<or> (\<exists>hostname ip w1. query_params request ''hostname'' = Some hostname
          \<and> filter mutating (calls w1) = filter mutating (calls w)
          \<and> record_sets w1 = record_sets w \<and> normalize_name w1 = normalize_name w
          \<and> update request hostname (Some ip) w1 = (r, w'))"
proof (cases "authorization request")
  case None
  then show ?thesis using assms by (auto simp: nic_update_def)
next
  case (Some credentials)
  obtain r1 w1 where v: "validate_credentials credentials w = (r1, w1)"
    by (cases "validate_credentials credentials w")
  note f = validate_credentials_frame[OF v]
  have m: "filter mutating (calls w1) = filter mutating (calls w)"
    using f dns_call_frame_mutating by blast
  show ?thesis
  proof (cases r1)
    case (Inl e)
    then show ?thesis using assms Some v f m by (auto simp: nic_update_def)
  next
    case (Inr u)
    show ?thesis
    proof (cases "query_params request ''hostname''")
      case None
      then show ?thesis using assms Some v Inr f m by (auto simp: nic_update_def)
    next
      case h: (Some hostname)
      have "(r, w') = (Inl RequestValidationError, w1)
          \<or> (\<exists>myip. update request hostname myip w1 = (r, w'))"
        using assms Some v Inr h
        by (auto simp: nic_update_def split: option.splits)
      then consider "(r, w') = (Inl RequestValidationError, w1)"
        | e where "(r, w') = (Inl e, w1)"
        | ip where "update request hostname (Some ip) w1 = (r, w')"
        using update_cases[of request hostname _ w1] by metis
      then show ?thesis
      proof cases
        case 1
        then show ?thesis using f m by auto
      next
        case 2
        then show ?thesis using f m by auto
      next
        case 3
        then show ?thesis using h f m by auto
      qed
    qed
  qed
qed

text \<open>
  C5 (amended).  Whatever the request, the endpoint either makes no change call and leaves
  every record set as it is, or it makes exactly one: an UPSERT of the A record set of the
  requested hostname with TTL 60 and the single value \<^verbatim>\<open>str(ip)\<close>.  After that call the
  record sets are unchanged (the provider refused) or the provider has applied the UPSERT
  to that zone; in both cases every record set of another type or another name, in every
  zone, is exactly as before.  The A record set of the hostname itself is replaced as a
  whole: values it held before are not kept.
\<close>

theorem update_touches_only_the_A_record_set:
  assumes "nic_update request w = (r, w')"
  shows "(filter mutating (calls w') = filter mutating (calls w) \<and> record_sets w' = record_sets w)
    \<or> (\<exists>hostname z ip. query_params request ''hostname'' = Some hostname
          \<and> filter mutating (calls w') = filter mutating (calls w) @
               [ChangeResourceRecordSets z
                  [Change UPSERT (ResourceRecordSet hostname ''A'' 60 [str ip])]]
          \<and> (record_sets w' = record_sets w
             \<or> record_sets w' = (record_sets w)
                 (z := apply_change (normalize_name w) (record_sets w z)
                    (Change UPSERT (ResourceRecordSet hostname ''A'' 60 [str ip]))))
          \<and> (\<forall>z'. filter (\<lambda>x. \<not> (rrs_Name x = normalize_name w hostname \<and> rrs_Type x = ''A''))
                     (record_sets w' z')
                 = filter (\<lambda>x. \<not> (rrs_Name x = normalize_name w hostname \<and> rrs_Type x = ''A''))
                     (record_sets w z')))"
proof -
  from nic_update_cases[OF assms] show ?thesis
  proof
    assume "filter mutating (calls w') = filter mutating (calls w) \<and> record_sets w' = record_sets w"
    then show ?thesis by simp
  next
    assume "\<exists>hostname ip w1. query_params request ''hostname'' = Some hostname
          \<and> filter mutating (calls w1) = filter mutating (calls w)
          \<and> record_sets w1 = record_sets w \<and> normalize_name w1 = normalize_name w
          \<and> update request hostname (Some ip) w1 = (r, w')"
    then obtain hostname ip w1 where h: "query_params request ''hostname'' = Some hostname"
      and f: "filter mutating (calls w1) = filter mutating (calls w)"
        "record_sets w1 = record_sets w" "normalize_name w1 = normalize_name w"
      and u: "update request hostname (Some ip) w1 = (r, w')"
      by blast
    let ?r = "ResourceRecordSet hostname ''A'' 60 [str ip]"
    let ?other = "\<lambda>x. \<not> (rrs_Name x = normalize_name w hostname \<and> rrs_Type x = ''A'')"
    have key: "?other = (\<lambda>x. \<not> same_record_set x (normalized (normalize_name w) ?r))"
      by (simp add: same_record_set_def normalized_def)
    from update_effect_ip[OF u] show ?thesis
    proof
      assume "filter mutating (calls w') = filter mutating (calls w1) \<and> record_sets w' = record_sets w1"
      then show ?thesis using f by simp
    next
      assume "\<exists>z. filter mutating (calls w') = filter mutating (calls w1) @
            [ChangeResourceRecordSets z [Change UPSERT ?r]]
          \<and> (record_sets w' = record_sets w1
             \<or> record_sets w' = (record_sets w1)
                 (z := apply_change (normalize_name w1) (record_sets w1 z) (Change UPSERT ?r)))"
      then obtain z where m: "filter mutating (calls w') = filter mutating (calls w) @
            [ChangeResourceRecordSets z [Change UPSERT ?r]]"
        and e: "record_sets w' = record_sets w
             \<or> record_sets w' = (record_sets w)
                 (z := apply_change (normalize_name w) (record_sets w z) (Change UPSERT ?r))"
        using f by auto
      have "filter ?other (record_sets w' z') = filter ?other (record_sets w z')" for z'
        using e
      proof
        assume "record_sets w' = record_sets w"
        then show ?thesis by simp
      next
        assume a: "record_sets w' = (record_sets w)
                 (z := apply_change (normalize_name w) (record_sets w z) (Change UPSERT ?r))"
        show ?thesis
          using upsert_others[of "normalize_name w" ?r "record_sets w z"]
          unfolding a key by (cases "z' = z") (simp_all del: apply_change.simps)
      qed
      with h m e show ?thesis by blast
    qed
  qed
qed

theorem update_touches_only_witness:
  "filter (\<lambda>x. \<not> (rrs_Name x = ''www.example.com.'' \<and> rrs_Type x = ''A''))
     (record_sets (snd (nic_update
        (example_request\<lparr>query_params :=
           [''hostname'' \<mapsto> ''www.example.com'', ''myip'' \<mapsto> ''3.3.3.3'']\<rparr>)
        example_world_two_values)) ''/hostedzone/Z1'')
   = [ResourceRecordSet ''www.example.com.'' ''MX'' 300 [''10 mail.example.com.'']]"
proof -
  let ?request = "example_request\<lparr>query_params :=
           [''hostname'' \<mapsto> ''www.example.com'', ''myip'' \<mapsto> ''3.3.3.3'']\<rparr>"
  let ?w = example_world_two_values
  have run: "nic_update ?request ?w = (fst (nic_update ?request ?w), snd (nic_update ?request ?w))"
    by simp
  have changed: "filter mutating (calls (snd (nic_update ?request ?w)))
      \<noteq> filter mutating (calls ?w)"
    by (simp add: endpoint_defs example_defs del: concat_eq_Nil_conv)
  have h: "query_params ?request ''hostname'' = Some ''www.example.com''"
    by (simp add: example_defs)
  have n: "normalize_name ?w ''www.example.com'' = ''www.example.com.''"
    by (simp add: example_defs)
  have before: "filter (\<lambda>x. \<not> (rrs_Name x = ''www.example.com.'' \<and> rrs_Type x = ''A''))
      (record_sets ?w ''/hostedzone/Z1'')
     = [ResourceRecordSet ''www.example.com.'' ''MX'' 300 [''10 mail.example.com.'']]"
    by (simp add: example_defs)
  from update_touches_only_the_A_record_set[OF run] changed h n before show ?thesis
    by auto
qed

text \<open>
  The claim as written fails: the A record set of \<^verbatim>\<open>www.example.com\<close> holds
  \<^verbatim>\<open>1.1.1.1\<close> and \<^verbatim>\<open>2.2.2.2\<close>; after the update to \<^verbatim>\<open>3.3.3.3\<close> both values are gone (the
  MX record set is still there).
\<close>

theorem upsert_replaces_other_values:
  "record_sets example_world_two_values ''/hostedzone/Z1''
     = [ResourceRecordSet ''www.example.com.'' ''A'' 300 [''1.1.1.1'', ''2.2.2.2''],
        ResourceRecordSet ''www.example.com.'' ''MX'' 300 [''10 mail.example.com.'']]
   \<and> fst (nic_update
        (example_request\<lparr>query_params :=
           [''hostname'' \<mapsto> ''www.example.com'', ''myip'' \<mapsto> ''3.3.3.3'']\<rparr>)
        example_world_two_values)
     = Inr (PlainTextResponse ''good 3.3.3.3'')
   \<and> record_sets (snd (nic_update
        (example_request\<lparr>query_params :=
           [''hostname'' \<mapsto> ''www.example.com'', ''myip'' \<mapsto> ''3.3.3.3'']\<rparr>)
        example_world_two_values)) ''/hostedzone/Z1''
     = [ResourceRecordSet ''www.example.com.'' ''A'' 60 [''3.3.3.3''],
        ResourceRecordSet ''www.example.com.'' ''MX'' 300 [''10 mail.example.com.'']]"
  by (simp add: endpoint_defs example_defs same_record_set_def normalized_def Let_def
      del: concat_eq_Nil_conv)

section \<open>The source of the target address\<close>

text \<open>
  C6 (amended).  For an authenticated request with a hostname: a \<^verbatim>\<open>myip\<close> that the address
  parser accepts is the target address, and so is, when \<^verbatim>\<open>myip\<close> is absent, the parsed
  value of the \<^verbatim>\<open>x-forwarded-for\<close> header; a \<^verbatim>\<open>myip\<close> that the parser rejects ends the
  request with \<^verbatim>\<open>RequestValidationError\<close> (status 422) right after authentication, and the
  header is not consulted.  The target address is what the update uses: a successful
  response is \<^verbatim>\<open>good\<close> or \<^verbatim>\<open>nochg\<close> followed by \<^verbatim>\<open>str(ip)\<close>, and a change call, if one
  is made, upserts the single value \<^verbatim>\<open>str(ip)\<close>.
\<close>

theorem target_ip_source:
  assumes "authorization request = Some credentials"
    and "validate_credentials credentials w = (Inr (), w1)"
    and "query_params request ''hostname'' = Some hostname"
  shows "(\<forall>literal ip. query_params request ''myip'' = Some literal \<and> ip_literal w literal = Some ip
            \<longrightarrow> nic_update request w = update request hostname (Some ip) w1)
       \<and> (\<forall>v ip. query_params request ''myip'' = None
              \<and> headers request ''x-forwarded-for'' = Some v \<and> ip_literal w v = Some ip
            \<longrightarrow> nic_update request w = update request hostname (Some ip) w1)
       \<and> (\<forall>literal. query_params request ''myip'' = Some literal \<and> ip_literal w literal = None
            \<longrightarrow> nic_update request w = (Inl RequestValidationError, w1))
       \<and> (\<forall>ip resp w'. update request hostname (Some ip) w1 = (Inr resp, w')
            \<longrightarrow> (body resp = ''good '' @ str ip \<or> body resp = ''nochg '' @ str ip)
              \<and> (filter mutating (calls w') = filter mutating (calls w1)
                 \<or> (\<exists>z. filter mutating (calls w') = filter mutating (calls w1) @
                      [ChangeResourceRecordSets z
                         [Change UPSERT (ResourceRecordSet hostname ''A'' 60 [str ip])]])))"
proof (intro conjI allI impI)
  have lit: "ip_literal w1 = ip_literal w"
    using validate_credentials_frame[OF assms(2)] by simp
  {
    fix literal ip
    assume a: "query_params request ''myip'' = Some literal \<and> ip_literal w literal = Some ip"
    then show "nic_update request w = update request hostname (Some ip) w1"
      using nic_update_authenticated[OF assms, of literal ip] by simp
  }
  {
    fix v ip
    assume a: "query_params request ''myip'' = None
              \<and> headers request ''x-forwarded-for'' = Some v \<and> ip_literal w v = Some ip"
    then have "get_ip_from_headers request w = Inr ip"
      by (simp add: get_ip_from_headers_def)
    then show "nic_update request w = update request hostname (Some ip) w1"
      using nic_update_authenticated[OF assms, of undefined ip] a by simp
  }
  {
    fix literal
    assume "query_params request ''myip'' = Some literal \<and> ip_literal w literal = None"
    then show "nic_update request w = (Inl RequestValidationError, w1)"
      using assms lit by (simp add: nic_update_def)
  }
  fix ip resp w'
  assume u: "update request hostname (Some ip) w1 = (Inr resp, w')"
  show "body resp = ''good '' @ str ip \<or> body resp = ''nochg '' @ str ip"
    using update_response[OF u] .
  show "filter mutating (calls w') = filter mutating (calls w1)
                 \<or> (\<exists>z. filter mutating (calls w') = filter mutating (calls w1) @
                      [ChangeResourceRecordSets z
                         [Change UPSERT (ResourceRecordSet hostname ''A'' 60 [str ip])]])"
    using update_effect_ip[OF u] by blast
qed

theorem target_ip_source_witness:
  "fst (nic_update example_request example_world) = Inr (PlainTextResponse ''good 1.1.1.1'')
   \<and> fst (nic_update (example_request\<lparr>query_params := [''hostname'' \<mapsto> ''www.example.com''],
        headers := [''x-forwarded-for'' \<mapsto> ''3.3.3.3'']\<rparr>) example_world)
     = Inr (PlainTextResponse ''good 3.3.3.3'')
   \<and> fst (nic_update (example_request\<lparr>query_params :=
        [''hostname'' \<mapsto> ''www.example.com'', ''myip'' \<mapsto> ''not-an-ip''],
        headers := [''x-forwarded-for'' \<mapsto> ''1.1.1.1'']\<rparr>) example_world)
     = Inl RequestValidationError"
proof -
  let ?w1 = "example_world\<lparr>calls := [GetSecret ''dynr53/users/admin''],
               parameters_cache := Some (JSONObject
                 [''username'' \<mapsto> ''admin'', ''password'' \<mapsto> ''secret12345'']),
               admin_password_cache := Some ''secret12345''\<rparr>"
  let ?header = "example_request\<lparr>query_params := [''hostname'' \<mapsto> ''www.example.com''],
        headers := [''x-forwarded-for'' \<mapsto> ''3.3.3.3'']\<rparr>"
  let ?invalid = "example_request\<lparr>query_params :=
        [''hostname'' \<mapsto> ''www.example.com'', ''myip'' \<mapsto> ''not-an-ip''],
        headers := [''x-forwarded-for'' \<mapsto> ''1.1.1.1'']\<rparr>"
  have v: "validate_credentials (HTTPBasicCredentials ''admin'' ''secret12345'') example_world
        = (Inr (), ?w1)"
    by (simp add: validate_credentials_def get_admin_password_def get_secret_def
        compare_digest_def example_defs)
  have a: "authorization example_request = Some (HTTPBasicCredentials ''admin'' ''secret12345'')"
      "authorization ?header = Some (HTTPBasicCredentials ''admin'' ''secret12345'')"
      "authorization ?invalid = Some (HTTPBasicCredentials ''admin'' ''secret12345'')"
    and h: "query_params example_request ''hostname'' = Some ''www.example.com''"
      "query_params ?header ''hostname'' = Some ''www.example.com''"
      "query_params ?invalid ''hostname'' = Some ''www.example.com''"
    by (simp_all add: example_defs)
  have explicit: "query_params example_request ''myip'' = Some ''1.1.1.1''
      \<and> ip_literal example_world ''1.1.1.1'' = Some (IPvAnyAddress ''1.1.1.1'')"
    and header: "query_params ?header ''myip'' = None
      \<and> headers ?header ''x-forwarded-for'' = Some ''3.3.3.3''
      \<and> ip_literal example_world ''3.3.3.3'' = Some (IPvAnyAddress ''3.3.3.3'')"
    and invalid: "query_params ?invalid ''myip'' = Some ''not-an-ip''
      \<and> ip_literal example_world ''not-an-ip'' = None"
    by (simp_all add: example_defs)
  have u1: "fst (update example_request ''www.example.com'' (Some (IPvAnyAddress ''1.1.1.1'')) ?w1)
      = Inr (PlainTextResponse ''good 1.1.1.1'')"
    and u2: "fst (update ?header ''www.example.com'' (Some (IPvAnyAddress ''3.3.3.3'')) ?w1)
      = Inr (PlainTextResponse ''good 3.3.3.3'')"
    by (simp_all add: endpoint_defs example_defs)
  from target_ip_source[OF a(1) v h(1), THEN conjunct1, rule_format, OF explicit]
       target_ip_source[OF a(2) v h(2), THEN conjunct2, THEN conjunct1, rule_format, OF header]
       target_ip_source[OF a(3) v h(3), THEN conjunct2, THEN conjunct2, THEN conjunct1, rule_format, OF invalid]
       u1 u2
  show ?thesis by simp
qed

text \<open>
  The claim as written fails: with \<^verbatim>\<open>myip=not-an-ip\<close> and the header
  \<^verbatim>\<open>x-forwarded-for: 1.1.1.1\<close> the header's address is not used; the request ends with
  status 422.
\<close>

theorem invalid_myip_rejected_despite_header:
  "query_params (example_request\<lparr>query_params :=
        [''hostname'' \<mapsto> ''www.example.com'', ''myip'' \<mapsto> ''not-an-ip''],
        headers := [''x-forwarded-for'' \<mapsto> ''1.1.1.1'']\<rparr>) ''myip'' = Some ''not-an-ip''
   \<and> ip_literal example_world ''not-an-ip'' = None
   \<and> ip_literal example_world ''1.1.1.1'' = Some (IPvAnyAddress ''1.1.1.1'')
   \<and> nic_update (example_request\<lparr>query_params :=
        [''hostname'' \<mapsto> ''www.example.com'', ''myip'' \<mapsto> ''not-an-ip''],
        headers := [''x-forwarded-for'' \<mapsto> ''1.1.1.1'']\<rparr>) example_world
     = (Inl RequestValidationError,
        example_world\<lparr>calls := [GetSecret ''dynr53/users/admin''],
          parameters_cache := Some (JSONObject
            [''username'' \<mapsto> ''admin'', ''password'' \<mapsto> ''secret12345'']),
          admin_password_cache := Some ''secret12345''\<rparr>)
   \<and> status_code (fst (nic_update (example_request\<lparr>query_params :=
        [''hostname'' \<mapsto> ''www.example.com'', ''myip'' \<mapsto> ''not-an-ip''],
        headers := [''x-forwarded-for'' \<mapsto> ''1.1.1.1'']\<rparr>) example_world)) = 422"
  by (simp add: endpoint_defs example_defs)

end
